theory Spec2Isabelle
  imports Main "HOL-Library.Multiset"
begin

section \<open>The JavaScript values that \<^verbatim>\<open>src/utils/csv.ts\<close> handles\<close>

text \<open>
  The program reads a file, hands its text to \<^verbatim>\<open>JSON.parse\<close> and works on the parsed
  value. A string is a \<open>string\<close> (the code units below 256). A number is never used
  in arithmetic: the code only tests its truthiness and prints it. It is kept as the
  decimal that the standard's \<^verbatim>\<open>Number::toString\<close> prints it from: a sign, the digits
  \<open>m\<close> and a power of ten \<open>e\<close>, the value being \<open>m * 10 ^ e\<close> (so 8.5 is
  \<open>Decimal False 85 (- 1)\<close>), or one of the three values that are not finite decimals.
\<close>

datatype number = NaN | PosInfinity | NegInfinity | Decimal bool nat int

text \<open>
  An object is the list of its own properties in the order \<^verbatim>\<open>Object.keys\<close> lists
  them; a lookup takes the first entry of a key (a parsed object has each key once).
\<close>

datatype json =
    JNull
  | JBool bool
  | JNum number
  | JStr string
  | JArr "json list"
  | JObj "(string \<times> json) list"

type_synonym JsonRecord = "(string \<times> json) list"

text \<open>
  What a property read yields: \<^verbatim>\<open>undefined\<close>, a built-in function inherited from
  \<^verbatim>\<open>Object.prototype\<close>, or a parsed value.
\<close>

datatype jsval = Undefined | Function | Val json

datatype error = TypeError | SyntaxError | SystemError

subsection \<open>Printing numbers: \<^verbatim>\<open>Number::toString\<close>\<close>

definition digitChar :: "nat \<Rightarrow> char" where
  "digitChar d = ''0123456789'' ! d"

fun digits :: "nat \<Rightarrow> string" where
  "digits n = (if n < 10 then [digitChar n] else digits (n div 10) @ [digitChar (n mod 10)])"

text \<open>Trailing zeros of the digits move into the exponent (the standard's smallest \<open>k\<close>).\<close>

fun stripZeros :: "nat \<Rightarrow> int \<Rightarrow> nat \<times> int" where
  "stripZeros m e =
     (if m \<noteq> 0 \<and> m mod 10 = 0 then stripZeros (m div 10) (e + 1) else (m, e))"

declare digits.simps [simp del]

declare stripZeros.simps [simp del]

text \<open>
  The digit string \<open>s\<close> of \<open>k\<close> digits and the position \<open>n\<close> of the decimal point,
  laid out by the four cases of the standard.
\<close>

definition layoutDecimal :: "string \<Rightarrow> int \<Rightarrow> string" where
  "layoutDecimal s n =
     (let k = int (length s) in
      if k \<le> n \<and> n \<le> 21 then s @ replicate (nat (n - k)) (CHR ''0'')
      else if 0 < n \<and> n \<le> 21 then take (nat n) s @ ''.'' @ drop (nat n) s
      else if - 6 < n \<and> n \<le> 0 then ''0.'' @ replicate (nat (- n)) (CHR ''0'') @ s
      else (if k = 1 then s else take 1 s @ ''.'' @ drop 1 s)
           @ ''e'' @ (if 0 \<le> n - 1 then ''+'' else ''-'') @ digits (nat \<bar>n - 1\<bar>))"

fun Number_toString :: "number \<Rightarrow> string" where
  "Number_toString NaN = ''NaN''"
| "Number_toString PosInfinity = ''Infinity''"
| "Number_toString NegInfinity = ''-Infinity''"
| "Number_toString (Decimal neg m e) =
     (if m = 0 then ''0''
      else (if neg then ''-'' else '''') @
           (case stripZeros m e of (s, e') \<Rightarrow>
              layoutDecimal (digits s) (int (length (digits s)) + e')))"

subsection \<open>\<^verbatim>\<open>JSON.stringify\<close>\<close>

definition hexDigit :: "nat \<Rightarrow> char" where
  "hexDigit d = ''0123456789abcdef'' ! d"

text \<open>
  One code unit inside a JSON string: the quote, the backslash and the control
  characters are escaped, everything else stands for itself.
\<close>

definition escapeChar :: "char \<Rightarrow> string" where
  "escapeChar c =
     (if c = CHR 0x08 then [CHR 0x5C, CHR ''b'']
      else if c = CHR 0x09 then [CHR 0x5C, CHR ''t'']
      else if c = CHR 0x0A then [CHR 0x5C, CHR ''n'']
      else if c = CHR 0x0C then [CHR 0x5C, CHR ''f'']
      else if c = CHR 0x0D then [CHR 0x5C, CHR ''r'']
      else if c = CHR 0x22 then [CHR 0x5C, CHR 0x22]
      else if c = CHR 0x5C then [CHR 0x5C, CHR 0x5C]
      else if (of_char c :: nat) < 32 then
        [CHR 0x5C, CHR ''u'', CHR ''0'', CHR ''0'',
         hexDigit (of_char c div 16), hexDigit (of_char c mod 16)]
      else [c])"

definition QuoteJSONString :: "string \<Rightarrow> string" where
  "QuoteJSONString s = [CHR 0x22] @ concat (map escapeChar s) @ [CHR 0x22]"

text \<open>\<^verbatim>\<open>Array.prototype.join\<close> on an array of strings.\<close>

fun join :: "string \<Rightarrow> string list \<Rightarrow> string" where
  "join sep [] = []"
| "join sep [x] = x"
| "join sep (x # y # ys) = x @ sep @ join sep (y # ys)"

text \<open>
  The text of a parsed value. No parsed value holds a function or \<^verbatim>\<open>undefined\<close>, and
  none has a callable \<^verbatim>\<open>toJSON\<close>, so every property and element is printed. A number
  that is not finite prints as \<^verbatim>\<open>null\<close>.
\<close>

fun SerializeJSON :: "json \<Rightarrow> string" where
  "SerializeJSON JNull = ''null''"
| "SerializeJSON (JBool b) = (if b then ''true'' else ''false'')"
| "SerializeJSON (JNum n) =
     (case n of Decimal neg m e \<Rightarrow> Number_toString n | _ \<Rightarrow> ''null'')"
| "SerializeJSON (JStr s) = QuoteJSONString s"
| "SerializeJSON (JArr xs) = ''['' @ join '','' (map SerializeJSON xs) @ '']''"
| "SerializeJSON (JObj kvs) =
     ''{'' @ join '','' (map (\<lambda>(k, v). QuoteJSONString k @ '':'' @ SerializeJSON v) kvs) @ ''}''"

text \<open>\<^verbatim>\<open>JSON.stringify(v)\<close>: \<^verbatim>\<open>undefined\<close> (here \<open>None\<close>) for \<^verbatim>\<open>undefined\<close> and for a function.\<close>

fun JSON_stringify :: "jsval \<Rightarrow> string option" where
  "JSON_stringify Undefined = None"
| "JSON_stringify Function = None"
| "JSON_stringify (Val j) = Some (SerializeJSON j)"

subsection \<open>Truthiness and \<^verbatim>\<open>||\<close>\<close>

fun ToBoolean :: "jsval \<Rightarrow> bool" where
  "ToBoolean Undefined = False"
| "ToBoolean Function = True"
| "ToBoolean (Val JNull) = False"
| "ToBoolean (Val (JBool b)) = b"
| "ToBoolean (Val (JNum NaN)) = False"
| "ToBoolean (Val (JNum (Decimal neg m e))) = (m \<noteq> 0)"
| "ToBoolean (Val (JNum n)) = True"
| "ToBoolean (Val (JStr s)) = (s \<noteq> [])"
| "ToBoolean (Val (JArr xs)) = True"
| "ToBoolean (Val (JObj kvs)) = True"

text \<open>\<^verbatim>\<open>v || ""\<close>.\<close>

definition orEmptyString :: "jsval \<Rightarrow> jsval" where
  "orEmptyString v = (if ToBoolean v then v else Val (JStr ''''))"

subsection \<open>Property reads on a parsed object\<close>

text \<open>
  The properties every object inherits from \<^verbatim>\<open>Object.prototype\<close>. All are
  functions but \<^verbatim>\<open>__proto__\<close>, whose getter returns \<^verbatim>\<open>Object.prototype\<close> itself: an
  object with no enumerable property, which is truthy and prints as \<^verbatim>\<open>{}\<close>, as
  \<open>JObj []\<close> does.
\<close>

definition ObjectPrototypeFunctions :: "string list" where
  "ObjectPrototypeFunctions =
     [''constructor'', ''hasOwnProperty'', ''isPrototypeOf'', ''propertyIsEnumerable'',
      ''toLocaleString'', ''toString'', ''valueOf'', ''__defineGetter__'',
      ''__defineSetter__'', ''__lookupGetter__'', ''__lookupSetter__'']"

definition inherited :: "string \<Rightarrow> jsval" where
  "inherited key =
     (if key = ''__proto__'' then Val (JObj [])
      else if key \<in> set ObjectPrototypeFunctions then Function
      else Undefined)"

text \<open>\<^verbatim>\<open>row[key]\<close> and \<^verbatim>\<open>row.key\<close>: the own property, else the inherited one.\<close>

definition getProp :: "JsonRecord \<Rightarrow> string \<Rightarrow> jsval" where
  "getProp row key = (case map_of row key of Some v \<Rightarrow> Val v | None \<Rightarrow> inherited key)"

definition Object_keys :: "JsonRecord \<Rightarrow> string list" where
  "Object_keys row = map fst row"

subsection \<open>\<^verbatim>\<open>ToString\<close>, and the comparison that \<^verbatim>\<open>sort\<close> is given\<close>

text \<open>
  \<^verbatim>\<open>Array.prototype.join\<close> on cells that may be \<^verbatim>\<open>undefined\<close>: such a cell is joined
  as the empty string.
\<close>

definition Array_join :: "string \<Rightarrow> string option list \<Rightarrow> string" where
  "Array_join sep cells = join sep (map (\<lambda>c. case c of None \<Rightarrow> [] | Some s \<Rightarrow> s) cells)"

text \<open>All elements converted, or the first error.\<close>

fun collect :: "(error + 'a) list \<Rightarrow> error + 'a list" where
  "collect [] = Inr []"
| "collect (r # rs) =
     (case r of
        Inl e \<Rightarrow> Inl e
      | Inr x \<Rightarrow> (case collect rs of Inl e \<Rightarrow> Inl e | Inr xs \<Rightarrow> Inr (x # xs)))"

text \<open>
  \<^verbatim>\<open>ToString\<close> of a parsed value. An array joins its elements with commas, \<^verbatim>\<open>null\<close>
  elements as the empty string. An object is \<^verbatim>\<open>[object Object]\<close> through the inherited
  \<^verbatim>\<open>toString\<close>; an own property of that name is not callable, and the conversion
  then throws.
\<close>

fun ToString_json :: "json \<Rightarrow> error + string" where
  "ToString_json JNull = Inr ''null''"
| "ToString_json (JBool b) = Inr (if b then ''true'' else ''false'')"
| "ToString_json (JNum n) = Inr (Number_toString n)"
| "ToString_json (JStr s) = Inr s"
| "ToString_json (JArr xs) =
     (case collect (map (\<lambda>x. if x = JNull then Inr [] else ToString_json x) xs) of
        Inl e \<Rightarrow> Inl e
      | Inr parts \<Rightarrow> Inr (join '','' parts))"
| "ToString_json (JObj kvs) =
     (if ''toString'' \<in> set (map fst kvs) then Inl TypeError else Inr ''[object Object]'')"

text \<open>
  The argument of \<^verbatim>\<open>localeCompare\<close> is converted with \<^verbatim>\<open>ToString\<close>. It is read from the
  property \<^verbatim>\<open>rollNo\<close>, which no object inherits, so the case of a function never arises.
\<close>

fun ToString :: "jsval \<Rightarrow> error + string" where
  "ToString Undefined = Inr ''undefined''"
| "ToString Function = Inr ''function () { [native code] }''"
| "ToString (Val j) = ToString_json j"

text \<open>
  The comparison \<^verbatim>\<open>(a, b) => b.rollNo.localeCompare(a.rollNo)\<close>. The method exists on
  strings only: with \<^verbatim>\<open>b.rollNo\<close> missing or of another type the call throws a
  \<^verbatim>\<open>TypeError\<close>. The collation \<open>lc\<close> is the runtime's \<^verbatim>\<open>String.prototype.localeCompare\<close>
  (negative, zero or positive), a parameter of the model.
\<close>

definition compareFn ::
  "(string \<Rightarrow> string \<Rightarrow> int) \<Rightarrow> JsonRecord \<Rightarrow> JsonRecord \<Rightarrow> error + int" where
  "compareFn lc a b =
     (case getProp b ''rollNo'' of
        Val (JStr s) \<Rightarrow>
          (case ToString (getProp a ''rollNo'') of Inl e \<Rightarrow> Inl e | Inr t \<Rightarrow> Inr (lc s t))
      | _ \<Rightarrow> Inl TypeError)"

subsection \<open>\<^verbatim>\<open>Array.prototype.sort\<close>\<close>

text \<open>
  The standard fixes the result of \<^verbatim>\<open>sort\<close> for a consistent comparison (the stable
  sorted permutation) and that an error thrown by the comparison ends the sort; it leaves
  the sequence of calls to the engine. The model is a stable insertion sort: \<open>x\<close> stands
  before \<open>y\<close> when \<open>cmp x y \<le> 0\<close>. The theorems below are about inputs for which the
  outcome does not depend on the sequence of calls.
\<close>

fun sortInsert :: "('a \<Rightarrow> 'a \<Rightarrow> error + int) \<Rightarrow> 'a \<Rightarrow> 'a list \<Rightarrow> error + 'a list" where
  "sortInsert cmp x [] = Inr [x]"
| "sortInsert cmp x (y # ys) =
     (case cmp x y of
        Inl e \<Rightarrow> Inl e
      | Inr c \<Rightarrow>
          if c \<le> 0 then Inr (x # y # ys)
          else (case sortInsert cmp x ys of Inl e \<Rightarrow> Inl e | Inr zs \<Rightarrow> Inr (y # zs)))"

fun Array_sort :: "('a \<Rightarrow> 'a \<Rightarrow> error + int) \<Rightarrow> 'a list \<Rightarrow> error + 'a list" where
  "Array_sort cmp [] = Inr []"
| "Array_sort cmp (x # xs) =
     (case Array_sort cmp xs of Inl e \<Rightarrow> Inl e | Inr ys \<Rightarrow> sortInsert cmp x ys)"

section \<open>\<^verbatim>\<open>jsonToCsv\<close>\<close>

text \<open>\<^verbatim>\<open>Array.from({ length: 8 }, (_, i) => `SGPA_sem${i + 1}`)\<close>.\<close>

definition sgpaHeaders :: "string list" where
  "sgpaHeaders = map (\<lambda>i. ''SGPA_sem'' @ Number_toString (Decimal False (i + 1) 0)) [0..<8]"

text \<open>
  \<^verbatim>\<open>Object.keys(jsonData[0]).filter(key => key !== "SGPA" && key !== "instituteName")\<close>.
\<close>

definition baseHeadersOf :: "JsonRecord \<Rightarrow> string list" where
  "baseHeadersOf first =
     filter (\<lambda>key. key \<noteq> ''SGPA'' \<and> key \<noteq> ''instituteName'') (Object_keys first)"

text \<open>\<^verbatim>\<open>[...baseHeaders, ...sgpaHeaders, "instituteName"]\<close>.\<close>

definition headersOf :: "string list \<Rightarrow> string list" where
  "headersOf baseHeaders = baseHeaders @ sgpaHeaders @ [''instituteName'']"

text \<open>\<^verbatim>\<open>(header) => JSON.stringify(row[header] || "")\<close>, one cell of \<^verbatim>\<open>rowData\<close>.\<close>

definition baseCell :: "JsonRecord \<Rightarrow> string \<Rightarrow> string option" where
  "baseCell row header = JSON_stringify (orEmptyString (getProp row header))"

definition rowData :: "string list \<Rightarrow> JsonRecord \<Rightarrow> string option list" where
  "rowData baseHeaders row = map (baseCell row) baseHeaders"

text \<open>\<^verbatim>\<open>header.split("_")\<close>: the pieces between the separators.\<close>

fun split :: "char \<Rightarrow> string \<Rightarrow> string list" where
  "split sep [] = [[]]"
| "split sep (c # cs) =
     (if c = sep then [] # split sep cs
      else (case split sep cs of [] \<Rightarrow> [[c]] | w # ws \<Rightarrow> (c # w) # ws))"

text \<open>\<^verbatim>\<open>xs[i]\<close>: \<^verbatim>\<open>undefined\<close> past the end.\<close>

definition at :: "'a list \<Rightarrow> nat \<Rightarrow> 'a option" where
  "at xs i = (if i < length xs then Some (xs ! i) else None)"

text \<open>
  \<^verbatim>\<open>row.SGPA?.[semester]\<close>: \<^verbatim>\<open>undefined\<close> when \<^verbatim>\<open>row.SGPA\<close> is \<^verbatim>\<open>undefined\<close> or
  \<^verbatim>\<open>null\<close>, the property of a nested object, and \<^verbatim>\<open>undefined\<close> on a string, number,
  boolean or array, which has no property named as a semester is. An \<^verbatim>\<open>undefined\<close>
  semester would be the key \<^verbatim>\<open>"undefined"\<close>.
\<close>

definition semesterValue :: "JsonRecord \<Rightarrow> string option \<Rightarrow> jsval" where
  "semesterValue row semester =
     (case getProp row ''SGPA'' of
        Val (JObj kvs) \<Rightarrow>
          getProp kvs (case semester of None \<Rightarrow> ''undefined'' | Some s \<Rightarrow> s)
      | _ \<Rightarrow> Undefined)"

text \<open>The callback of \<^verbatim>\<open>sgpaHeaders.map\<close>, one cell of \<^verbatim>\<open>sgpaData\<close>.\<close>

definition sgpaCell :: "JsonRecord \<Rightarrow> string \<Rightarrow> string option" where
  "sgpaCell row header =
     (let semester = at (split (CHR ''_'') header) 1
      in JSON_stringify (orEmptyString (semesterValue row semester)))"

definition sgpaData :: "JsonRecord \<Rightarrow> string option list" where
  "sgpaData row = map (sgpaCell row) sgpaHeaders"

text \<open>\<^verbatim>\<open>JSON.stringify(row.instituteName || "")\<close>.\<close>

definition instituteNameData :: "JsonRecord \<Rightarrow> string option" where
  "instituteNameData row = JSON_stringify (orEmptyString (getProp row ''instituteName''))"

text \<open>The cells of one row, and the row: the callback of \<^verbatim>\<open>jsonData.map\<close>.\<close>

definition rowCells :: "string list \<Rightarrow> JsonRecord \<Rightarrow> string option list" where
  "rowCells baseHeaders row = rowData baseHeaders row @ sgpaData row @ [instituteNameData row]"

definition csvRow :: "string list \<Rightarrow> JsonRecord \<Rightarrow> string" where
  "csvRow baseHeaders row = Array_join '','' (rowCells baseHeaders row)"

text \<open>
  The text built from the sorted records. \<^verbatim>\<open>Object.keys\<close> of a missing first element
  throws (it never does: the array is not empty here).
\<close>

definition render :: "JsonRecord list \<Rightarrow> error + string" where
  "render sortedData =
     (case sortedData of
        [] \<Rightarrow> Inl TypeError
      | first # _ \<Rightarrow>
          (let baseHeaders = baseHeadersOf first;
               headers = headersOf baseHeaders;
               csvRows = map (csvRow baseHeaders) sortedData
           in Inr (join ''\<newline>'' (join '','' headers # csvRows))))"

definition jsonToCsv :: "(string \<Rightarrow> string \<Rightarrow> int) \<Rightarrow> JsonRecord list \<Rightarrow> error + string" where
  "jsonToCsv lc jsonData =
     (if length jsonData = 0 then Inr []
      else (case Array_sort (compareFn lc) jsonData of
              Inl e \<Rightarrow> Inl e
            | Inr sortedData \<Rightarrow> render sortedData))"

section \<open>\<^verbatim>\<open>convertJsonFileToCsv\<close>\<close>

text \<open>
  What the function takes from its runtime: the collation, \<^verbatim>\<open>JSON.parse\<close>, and the
  outcome of \<^verbatim>\<open>jsonToCsv\<close> on a parsed value that is not an array of objects. The
  annotation \<^verbatim>\<open>JsonRecord[]\<close> is not checked when the program runs, and on such a value
  the outcome (a text or a thrown error) depends on the built-in properties of the
  engine's strings, numbers and arrays, so it is left open.
\<close>

record runtime =
  localeCompare :: "string \<Rightarrow> string \<Rightarrow> int"
  JSON_parse :: "string \<Rightarrow> error + json"
  jsonToCsv_untyped :: "json \<Rightarrow> error + string"

text \<open>
  The world the function acts on: the text of each readable file, the paths that can be
  written, and the lines printed on the console.
\<close>

datatype logLine = Log string | LogError string error

record world =
  files :: "string \<Rightarrow> string option"
  writable :: "string \<Rightarrow> bool"
  console :: "logLine list"

fun asRecords :: "json list \<Rightarrow> JsonRecord list option" where
  "asRecords [] = Some []"
| "asRecords (JObj kvs # xs) =
     (case asRecords xs of None \<Rightarrow> None | Some rs \<Rightarrow> Some (kvs # rs))"
| "asRecords (x # xs) = None"

text \<open>The call \<^verbatim>\<open>jsonToCsv(jsonData)\<close> on whatever \<^verbatim>\<open>JSON.parse\<close> returned.\<close>

definition callJsonToCsv :: "runtime \<Rightarrow> json \<Rightarrow> error + string" where
  "callJsonToCsv rt jsonData =
     (case jsonData of
        JArr xs \<Rightarrow>
          (case asRecords xs of
             Some rs \<Rightarrow> jsonToCsv (localeCompare rt) rs
           | None \<Rightarrow> jsonToCsv_untyped rt jsonData)
      | _ \<Rightarrow> jsonToCsv_untyped rt jsonData)"

text \<open>
  \<^verbatim>\<open>fs.readFile(path, "utf-8")\<close> and \<^verbatim>\<open>fs.writeFile(path, data, "utf-8")\<close>. A write that
  fails is taken to leave the files as they were; no theorem below rests on that.
\<close>

definition readFile :: "world \<Rightarrow> string \<Rightarrow> error + string" where
  "readFile w path = (case files w path of None \<Rightarrow> Inl SystemError | Some text \<Rightarrow> Inr text)"

definition writeFile :: "world \<Rightarrow> string \<Rightarrow> string \<Rightarrow> (error + unit) \<times> world" where
  "writeFile w path text =
     (if writable w path then (Inr (), w\<lparr>files := (files w)(path \<mapsto> text)\<rparr>)
      else (Inl SystemError, w))"

definition console_log :: "world \<Rightarrow> string \<Rightarrow> world" where
  "console_log w line = w\<lparr>console := console w @ [Log line]\<rparr>"

definition console_error :: "world \<Rightarrow> string \<Rightarrow> error \<Rightarrow> world" where
  "console_error w line e = w\<lparr>console := console w @ [LogError line e]\<rparr>"

text \<open>
  The block under \<^verbatim>\<open>try\<close>: it ends normally (\<open>Inr\<close>) or with the error thrown (\<open>Inl\<close>),
  in the world as it is at that point.
\<close>

definition tryBlock :: "runtime \<Rightarrow> string \<Rightarrow> string \<Rightarrow> world \<Rightarrow> (error + unit) \<times> world" where
  "tryBlock rt inputFilePath outputFilePath w =
     (case readFile w inputFilePath of
        Inl e \<Rightarrow> (Inl e, w)
      | Inr data \<Rightarrow>
          (case JSON_parse rt data of
             Inl e \<Rightarrow> (Inl e, w)
           | Inr jsonData \<Rightarrow>
               (case callJsonToCsv rt jsonData of
                  Inl e \<Rightarrow> (Inl e, w)
                | Inr csvData \<Rightarrow>
                    (case writeFile w outputFilePath csvData of
                       (Inl e, w') \<Rightarrow> (Inl e, w')
                     | (Inr u, w') \<Rightarrow>
                         (Inr (),
                          console_log w' (''CSV file has been saved to '' @ outputFilePath))))))"

text \<open>The block under \<^verbatim>\<open>catch (error)\<close>.\<close>

definition catchBlock :: "error \<Rightarrow> world \<Rightarrow> (error + unit) \<times> world" where
  "catchBlock e w = (Inr (), console_error w ''Error converting JSON to CSV:'' e)"

text \<open>
  The function: \<open>Inr ()\<close> is the promise fulfilled with no value, \<open>Inl e\<close> would be the
  promise rejected with \<open>e\<close>, the error raised to the caller.
\<close>

definition convertJsonFileToCsv ::
  "runtime \<Rightarrow> string \<Rightarrow> string \<Rightarrow> world \<Rightarrow> (error + unit) \<times> world" where
  "convertJsonFileToCsv rt inputFilePath outputFilePath w =
     (case tryBlock rt inputFilePath outputFilePath w of
        (Inl e, w') \<Rightarrow> catchBlock e w'
      | (Inr u, w') \<Rightarrow> (Inr u, w'))"

section \<open>The notions of the specification\<close>

text \<open>The sort key of a record: its \<^verbatim>\<open>rollNo\<close>, when that is a text.\<close>

definition rollNoOf :: "JsonRecord \<Rightarrow> string option" where
  "rollNoOf r = (case map_of r ''rollNo'' of Some (JStr s) \<Rightarrow> Some s | _ \<Rightarrow> None)"

text \<open>
  The collections on which the comparison cannot throw: every record has a text
  \<^verbatim>\<open>rollNo\<close>, or there is at most one record and nothing is compared.
\<close>

definition sortable :: "JsonRecord list \<Rightarrow> bool" where
  "sortable jsonData = (length jsonData \<le> 1 \<or> list_all (\<lambda>r. rollNoOf r \<noteq> None) jsonData)"

text \<open>
  A consistent comparison, as the standard asks of the argument of \<^verbatim>\<open>sort\<close>: swapping
  the arguments swaps the sign, and the order is transitive. Every collation is one.
\<close>

definition consistentCompare :: "(string \<Rightarrow> string \<Rightarrow> int) \<Rightarrow> bool" where
  "consistentCompare lc =
     ((\<forall>a b. (lc a b < 0) = (0 < lc b a)) \<and>
      (\<forall>a b c. lc a b \<le> 0 \<and> lc b c \<le> 0 \<longrightarrow> lc a c \<le> 0))"


text \<open>A text without line break: no line feed and no carriage return.\<close>

definition noLineBreak :: "string \<Rightarrow> bool" where
  "noLineBreak s = (CHR 0x0A \<notin> set s \<and> CHR 0x0D \<notin> set s)"

text \<open>The lines of a text, as \<^verbatim>\<open>text.split("\n")\<close> gives them.\<close>

definition linesOf :: "string \<Rightarrow> string list" where
  "linesOf text = split (CHR 0x0A) text"

text \<open>The characters a finite number is printed with.\<close>

definition decimalChars :: "string" where
  "decimalChars = ''0123456789.e+-''"

text \<open>The empty quoted cell \<^verbatim>\<open>""\<close>.\<close>

definition emptyCell :: "string" where
  "emptyCell = [CHR 0x22, CHR 0x22]"

subsection \<open>Examples to run the model on\<close>

text \<open>A collation: the order of the code units, as the root locale orders ASCII letters
  of one case and digits.\<close>

fun codeUnitCompare :: "string \<Rightarrow> string \<Rightarrow> int" where
  "codeUnitCompare [] [] = 0"
| "codeUnitCompare [] (y # ys) = - 1"
| "codeUnitCompare (x # xs) [] = 1"
| "codeUnitCompare (x # xs) (y # ys) =
     (if (of_char x :: nat) < of_char y then - 1
      else if (of_char y :: nat) < of_char x then 1
      else codeUnitCompare xs ys)"

text \<open>The scenario of the specification, as text and parsed.\<close>

definition scenarioText :: "string" where
  \<open>scenarioText =
     ''[{"rollNo":"A1","SGPA":{"sem1":8.5},"instituteName":"X"},{"rollNo":"A3","SGPA":{},"instituteName":"Y"}]''\<close>

definition scenarioA1 :: "JsonRecord" where
  "scenarioA1 =
     [(''rollNo'', JStr ''A1''),
      (''SGPA'', JObj [(''sem1'', JNum (Decimal False 85 (- 1)))]),
      (''instituteName'', JStr ''X'')]"

definition scenarioA3 :: "JsonRecord" where
  "scenarioA3 = [(''rollNo'', JStr ''A3''), (''SGPA'', JObj []), (''instituteName'', JStr ''Y'')]"

definition scenario :: "JsonRecord list" where
  "scenario = [scenarioA1, scenarioA3]"

text \<open>
  A runtime that parses the scenario and one more text, and a world with three files,
  the third one not JSON.
\<close>

definition exampleRuntime :: "runtime" where
  "exampleRuntime =
     \<lparr>localeCompare = codeUnitCompare,
      JSON_parse = (\<lambda>text.
        if text = scenarioText then Inr (JArr (map JObj scenario))
        else if text = ''[{},{}]'' then Inr (JArr [JObj [], JObj []])
        else Inl SyntaxError),
      jsonToCsv_untyped = (\<lambda>j. Inl TypeError)\<rparr>"

definition exampleWorld :: "world" where
  "exampleWorld =
     \<lparr>files =
        [''results.json'' \<mapsto> scenarioText, ''empty.json'' \<mapsto> ''[{},{}]'',
         ''broken.json'' \<mapsto> ''[{''],
      writable = (\<lambda>path. path = ''results.csv''),
      console = []\<rparr>"

section \<open>Lemmas\<close>

subsection \<open>Property reads of the fixed names\<close>

lemma getProp_rollNo:
  "getProp r ''rollNo'' = (case map_of r ''rollNo'' of Some v \<Rightarrow> Val v | None \<Rightarrow> Undefined)"
  by (simp add: getProp_def inherited_def ObjectPrototypeFunctions_def split: option.splits)

lemma getProp_SGPA:
  "getProp r ''SGPA'' = (case map_of r ''SGPA'' of Some v \<Rightarrow> Val v | None \<Rightarrow> Undefined)"
  by (simp add: getProp_def inherited_def ObjectPrototypeFunctions_def split: option.splits)

lemma getProp_instituteName:
  "getProp r ''instituteName'' =
     (case map_of r ''instituteName'' of Some v \<Rightarrow> Val v | None \<Rightarrow> Undefined)"
  by (simp add: getProp_def inherited_def ObjectPrototypeFunctions_def split: option.splits)

lemma rollNoOf_Some:
  "rollNoOf r = Some s \<longleftrightarrow> map_of r ''rollNo'' = Some (JStr s)"
  by (auto simp: rollNoOf_def split: option.splits json.splits)

lemma compareFn_text:
  assumes "rollNoOf a = Some s" and "rollNoOf b = Some t"
  shows "compareFn lc a b = Inr (lc t s)"
  using assms by (simp add: compareFn_def getProp_rollNo rollNoOf_Some)

subsection \<open>The sort\<close>

lemma sortInsert_text:
  assumes "\<forall>r\<in>set (x # ys). rollNoOf r \<noteq> None"
  shows "\<exists>zs. sortInsert (compareFn lc) x ys = Inr zs \<and> mset zs = mset (x # ys)"
  using assms
proof (induction ys)
  case Nil
  then show ?case by simp
next
  case (Cons y ys)
  from Cons.prems obtain s t where st: "rollNoOf x = Some s" "rollNoOf y = Some t"
    by auto
  from Cons.prems have "\<forall>r\<in>set (x # ys). rollNoOf r \<noteq> None" by simp
  with Cons.IH obtain zs where zs: "sortInsert (compareFn lc) x ys = Inr zs" "mset zs = mset (x # ys)"
    by blast
  show ?case
    by (simp add: compareFn_text [OF st] zs)
qed

lemma Array_sort_text:
  assumes "\<forall>r\<in>set xs. rollNoOf r \<noteq> None"
  shows "\<exists>zs. Array_sort (compareFn lc) xs = Inr zs \<and> mset zs = mset xs"
  using assms
proof (induction xs)
  case Nil
  then show ?case by simp
next
  case (Cons x xs)
  then obtain ys where ys: "Array_sort (compareFn lc) xs = Inr ys" "mset ys = mset xs"
    by auto
  from ys(2) have "set ys = set xs" by (rule mset_eq_setD)
  with Cons.prems have "\<forall>r\<in>set (x # ys). rollNoOf r \<noteq> None" by simp
  from sortInsert_text [OF this, of lc] obtain zs
    where "sortInsert (compareFn lc) x ys = Inr zs" "mset zs = mset (x # ys)" by blast
  with ys show ?case by simp
qed

lemma Array_sort_sortable:
  assumes "sortable xs"
  shows "\<exists>zs. Array_sort (compareFn lc) xs = Inr zs \<and> mset zs = mset xs"
proof (cases "list_all (\<lambda>r. rollNoOf r \<noteq> None) xs")
  case True
  then show ?thesis by (simp add: Array_sort_text list_all_iff)
next
  case False
  with assms have "length xs \<le> 1" by (simp add: sortable_def)
  then show ?thesis
    by (cases xs) (auto simp: le_Suc_eq)
qed




subsection \<open>Joining and splitting\<close>

lemma join_Cons: "join sep (x # xs) = (if xs = [] then x else x @ sep @ join sep xs)"
  by (cases xs) simp_all


lemma set_join: "set (join sep xs) \<subseteq> set sep \<union> \<Union> (set ` set xs)"
  by (induction sep xs rule: join.induct) auto

lemma split_no_sep: "sep \<notin> set x \<Longrightarrow> split sep x = [x]"
  by (induction x) auto

lemma split_append_sep:
  "sep \<notin> set x \<Longrightarrow> split sep (x @ sep # rest) = x # split sep rest"
  by (induction x) (auto split: list.splits)

lemma split_join:
  assumes "xs \<noteq> []" and "\<forall>x\<in>set xs. sep \<notin> set x"
  shows "split sep (join [sep] xs) = xs"
  using assms
proof (induction xs)
  case Nil
  then show ?case by simp
next
  case (Cons x xs)
  show ?case
  proof (cases "xs = []")
    case True
    with Cons.prems show ?thesis by (simp add: split_no_sep)
  next
    case False
    with Cons have "split sep (join [sep] xs) = xs" by simp
    with False Cons.prems show ?thesis
      by (simp add: join_Cons split_append_sep)
  qed
qed

subsection \<open>The headers\<close>

lemma sgpaHeaders_eq:
  "sgpaHeaders =
     [''SGPA_sem1'', ''SGPA_sem2'', ''SGPA_sem3'', ''SGPA_sem4'',
      ''SGPA_sem5'', ''SGPA_sem6'', ''SGPA_sem7'', ''SGPA_sem8'']"
  by (simp add: sgpaHeaders_def upt_rec layoutDecimal_def digitChar_def digits.simps stripZeros.simps)

lemma render_nonempty:
  assumes "sortedData \<noteq> []"
  shows "render sortedData =
     Inr (join ''\<newline>''
       (join '','' (headersOf (baseHeadersOf (hd sortedData)))
        # map (csvRow (baseHeadersOf (hd sortedData))) sortedData))"
  using assms by (cases sortedData) (simp_all add: render_def Let_def)

lemma jsonToCsv_sortable:
  assumes "jsonData \<noteq> []" and "sortable jsonData"
  shows "\<exists>sortedData.
     Array_sort (compareFn lc) jsonData = Inr sortedData \<and>
     mset sortedData = mset jsonData \<and> sortedData \<noteq> [] \<and>
     jsonToCsv lc jsonData =
       Inr (join ''\<newline>''
         (join '','' (headersOf (baseHeadersOf (hd sortedData)))
          # map (csvRow (baseHeadersOf (hd sortedData))) sortedData))"
proof -
  from Array_sort_sortable [OF assms(2), of lc] obtain sortedData
    where s: "Array_sort (compareFn lc) jsonData = Inr sortedData"
      "mset sortedData = mset jsonData" by blast
  from s(2) assms(1) have ne: "sortedData \<noteq> []" by auto
  from s ne assms(1) show ?thesis
    by (auto simp: jsonToCsv_def render_nonempty)
qed

subsection \<open>The example collation\<close>

lemma codeUnitCompare_swap: "(codeUnitCompare a b < 0) = (0 < codeUnitCompare b a)"
  by (induction a b rule: codeUnitCompare.induct) auto

lemma codeUnitCompare_Cons_le:
  "codeUnitCompare (x # xs) (y # ys) \<le> 0 \<longleftrightarrow>
     (of_char x :: nat) < of_char y \<or>
     ((of_char x :: nat) = of_char y \<and> codeUnitCompare xs ys \<le> 0)"
  by auto

lemma codeUnitCompare_trans:
  "codeUnitCompare a b \<le> 0 \<Longrightarrow> codeUnitCompare b c \<le> 0 \<Longrightarrow> codeUnitCompare a c \<le> 0"
proof (induction a b arbitrary: c rule: codeUnitCompare.induct)
  case 1
  then show ?case by simp
next
  case (2 y ys)
  then show ?case by (cases c) simp_all
next
  case (3 x xs)
  then show ?case by simp
next
  case (4 x xs y ys)
  show ?case
  proof (cases c)
    case Nil
    with "4.prems"(2) show ?thesis by simp
  next
    case (Cons z zs)
    from "4.prems"(1) have xy: "(of_char x :: nat) < of_char y \<or>
        ((of_char x :: nat) = of_char y \<and> codeUnitCompare xs ys \<le> 0)"
      by (simp only: codeUnitCompare_Cons_le)
    from "4.prems"(2) Cons have yz: "(of_char y :: nat) < of_char z \<or>
        ((of_char y :: nat) = of_char z \<and> codeUnitCompare ys zs \<le> 0)"
      by (simp only: codeUnitCompare_Cons_le)
    show ?thesis
    proof (cases "(of_char x :: nat) = of_char y \<and> (of_char y :: nat) = of_char z")
      case True
      with xy yz have "codeUnitCompare xs ys \<le> 0" "codeUnitCompare ys zs \<le> 0" by simp_all
      with "4.IH" True have "codeUnitCompare xs zs \<le> 0" by simp
      with True Cons show ?thesis by (simp only: codeUnitCompare_Cons_le) simp
    next
      case False
      with xy yz have "(of_char x :: nat) < of_char z" by linarith
      with Cons show ?thesis by (simp only: codeUnitCompare_Cons_le) simp
    qed
  qed
qed

lemma consistent_codeUnitCompare: "consistentCompare codeUnitCompare"
  unfolding consistentCompare_def
  using codeUnitCompare_swap codeUnitCompare_trans by blast

lemma sortable_scenario: "sortable scenario"
  by (simp add: sortable_def scenario_def scenarioA1_def scenarioA3_def rollNoOf_def)

lemma Array_sort_scenario:
  assumes "0 < lc ''A3'' ''A1''"
  shows "Array_sort (compareFn lc) scenario = Inr [scenarioA3, scenarioA1]"
proof -
  have "rollNoOf scenarioA1 = Some ''A1''" "rollNoOf scenarioA3 = Some ''A3''"
    by (simp_all add: scenarioA1_def scenarioA3_def rollNoOf_def)
  then have "compareFn lc scenarioA1 scenarioA3 = Inr (lc ''A3'' ''A1'')"
    by (rule compareFn_text)
  with assms show ?thesis by (simp add: scenario_def)
qed

subsection \<open>The characters of a printed value\<close>

lemma digitChar_decimal: "d < 10 \<Longrightarrow> digitChar d \<in> set decimalChars"
proof -
  assume "d < 10"
  then have "d < length ''0123456789''" by simp
  then have "''0123456789'' ! d \<in> set ''0123456789''" by (rule nth_mem)
  then show ?thesis by (auto simp: digitChar_def decimalChars_def)
qed

lemma digits_decimal: "set (digits n) \<subseteq> set decimalChars"
proof (induction n rule: digits.induct)
  case (1 n)
  show ?case
  proof (cases "n < 10")
    case True
    then show ?thesis by (subst digits.simps) (simp add: digitChar_decimal)
  next
    case False
    have "n mod 10 < 10" by simp
    then have "digitChar (n mod 10) \<in> set decimalChars" by (rule digitChar_decimal)
    with False "1.IH" show ?thesis by (subst digits.simps) simp
  qed
qed

lemma layoutDecimal_decimal:
  assumes "set s \<subseteq> set decimalChars"
  shows "set (layoutDecimal s n) \<subseteq> set decimalChars"
proof -
  have lit: "CHR ''0'' \<in> set decimalChars" "CHR ''.'' \<in> set decimalChars"
    "CHR ''e'' \<in> set decimalChars" "CHR ''+'' \<in> set decimalChars"
    "CHR ''-'' \<in> set decimalChars"
    by (simp_all add: decimalChars_def)
  have t: "set (take k s) \<subseteq> set decimalChars" for k
    using assms set_take_subset by fastforce
  have d: "set (drop k s) \<subseteq> set decimalChars" for k
    using assms set_drop_subset by fastforce
  have g: "set (digits k) \<subseteq> set decimalChars" for k
    by (rule digits_decimal)
  have r: "set (replicate k (CHR ''0'')) \<subseteq> set decimalChars" for k
    using lit(1) by (auto simp: set_replicate_conv_if)
  show ?thesis
    by (simp add: layoutDecimal_def Let_def assms lit t d g r)
qed

lemma Number_toString_decimal:
  "set (Number_toString (Decimal neg m e)) \<subseteq> set decimalChars"
proof -
  have z: "CHR ''0'' \<in> set decimalChars" "CHR ''-'' \<in> set decimalChars"
    by (simp_all add: decimalChars_def)
  obtain s e' where se: "stripZeros m e = (s, e')" by force
  have "set (layoutDecimal (digits s) (int (length (digits s)) + e')) \<subseteq> set decimalChars"
    by (rule layoutDecimal_decimal) (rule digits_decimal)
  with z se show ?thesis by auto
qed

lemma noLineBreak_decimal: "set s \<subseteq> set decimalChars \<Longrightarrow> noLineBreak s"
  by (auto simp: noLineBreak_def decimalChars_def)

lemma noLineBreak_append [simp]: "noLineBreak (a @ b) \<longleftrightarrow> noLineBreak a \<and> noLineBreak b"
  by (auto simp: noLineBreak_def)

lemma noLineBreak_Cons:
  "noLineBreak (c # s) \<longleftrightarrow> c \<noteq> CHR 0x0A \<and> c \<noteq> CHR 0x0D \<and> noLineBreak s"
  by (auto simp: noLineBreak_def)

lemma noLineBreak_Nil [simp]: "noLineBreak []"
  by (simp add: noLineBreak_def)

lemma noLineBreak_concat: "(\<forall>x\<in>set xs. noLineBreak x) \<Longrightarrow> noLineBreak (concat xs)"
  by (induction xs) simp_all

lemma noLineBreak_join:
  "noLineBreak sep \<Longrightarrow> (\<forall>x\<in>set xs. noLineBreak x) \<Longrightarrow> noLineBreak (join sep xs)"
  by (induction sep xs rule: join.induct) simp_all

lemma hexDigit_noLineBreak: "d < 16 \<Longrightarrow> hexDigit d \<noteq> CHR 0x0A \<and> hexDigit d \<noteq> CHR 0x0D"
proof -
  assume "d < 16"
  then have "d < length ''0123456789abcdef''" by simp
  then have "''0123456789abcdef'' ! d \<in> set ''0123456789abcdef''" by (rule nth_mem)
  then show ?thesis by (auto simp: hexDigit_def)
qed

lemma noLineBreak_escapeChar: "noLineBreak (escapeChar c)"
proof -
  have h: "hexDigit (of_char c div 16) \<noteq> CHR 0x0A \<and> hexDigit (of_char c div 16) \<noteq> CHR 0x0D"
    if "(of_char c :: nat) < 32"
    using that by (intro hexDigit_noLineBreak) simp
  have l: "hexDigit (of_char c mod 16) \<noteq> CHR 0x0A \<and> hexDigit (of_char c mod 16) \<noteq> CHR 0x0D"
    by (intro hexDigit_noLineBreak) simp
  show ?thesis
    using h l by (auto simp: escapeChar_def noLineBreak_Cons)
qed

lemma noLineBreak_QuoteJSONString: "noLineBreak (QuoteJSONString s)"
  by (simp add: QuoteJSONString_def noLineBreak_Cons noLineBreak_concat noLineBreak_escapeChar)

lemma noLineBreak_Number_toString: "noLineBreak (Number_toString n)"
proof (cases n)
  case (Decimal neg m e)
  then show ?thesis
    using Number_toString_decimal noLineBreak_decimal by blast
qed (simp_all add: noLineBreak_Cons)

lemma noLineBreak_SerializeJSON: "noLineBreak (SerializeJSON j)"
proof (induction j)
  case JNull
  show ?case by (simp add: noLineBreak_Cons)
next
  case (JBool b)
  show ?case by (simp add: noLineBreak_Cons)
next
  case (JNum n)
  show ?case
    using noLineBreak_Number_toString [of n]
    by (cases n) (simp_all add: noLineBreak_Cons del: Number_toString.simps)
next
  case (JStr s)
  show ?case by (simp add: noLineBreak_QuoteJSONString)
next
  case (JArr xs)
  then have "noLineBreak (join '','' (map SerializeJSON xs))"
    by (intro noLineBreak_join) (auto simp: noLineBreak_Cons)
  then show ?case by (simp add: noLineBreak_Cons)
next
  case (JObj kvs)
  have "\<forall>x\<in>set (map (\<lambda>(k, v). QuoteJSONString k @ '':'' @ SerializeJSON v) kvs). noLineBreak x"
  proof
    fix x assume "x \<in> set (map (\<lambda>(k, v). QuoteJSONString k @ '':'' @ SerializeJSON v) kvs)"
    then obtain k v where kv: "(k, v) \<in> set kvs" "x = QuoteJSONString k @ '':'' @ SerializeJSON v"
      by auto
    from kv(1) have "noLineBreak (SerializeJSON v)"
      by (rule JObj.IH) simp
    with kv(2) show "noLineBreak x"
      by (simp add: noLineBreak_QuoteJSONString noLineBreak_Cons)
  qed
  then have "noLineBreak (join '','' (map (\<lambda>(k, v). QuoteJSONString k @ '':'' @ SerializeJSON v) kvs))"
    by (intro noLineBreak_join) (auto simp: noLineBreak_Cons)
  then show ?case by (simp add: noLineBreak_Cons)
qed

lemma noLineBreak_JSON_stringify:
  "noLineBreak (case JSON_stringify v of None \<Rightarrow> [] | Some s \<Rightarrow> s)"
  by (cases v) (simp_all add: noLineBreak_SerializeJSON)

lemma noLineBreak_Array_join:
  assumes "noLineBreak sep"
    and "\<forall>c\<in>set cells. noLineBreak (case c of None \<Rightarrow> [] | Some s \<Rightarrow> s)"
  shows "noLineBreak (Array_join sep cells)"
  unfolding Array_join_def using assms by (intro noLineBreak_join) auto

lemma noLineBreak_csvRow: "noLineBreak (csvRow baseHeaders row)"
  unfolding csvRow_def
  by (rule noLineBreak_Array_join)
    (auto simp: noLineBreak_Cons rowCells_def rowData_def sgpaData_def baseCell_def
      sgpaCell_def instituteNameData_def Let_def noLineBreak_JSON_stringify)

lemma join_nonempty: "2 \<le> length xs \<Longrightarrow> sep \<noteq> [] \<Longrightarrow> join sep xs \<noteq> []"
  by (induction sep xs rule: join.induct) simp_all

lemma join_last_nonempty: "xs \<noteq> [] \<Longrightarrow> last xs \<noteq> [] \<Longrightarrow> join sep xs \<noteq> []"
  by (induction sep xs rule: join.induct) simp_all

lemma last_join: "xs \<noteq> [] \<Longrightarrow> last xs \<noteq> [] \<Longrightarrow> last (join sep xs) = last (last xs)"
proof (induction sep xs rule: join.induct)
  case (3 sep x y ys)
  from "3.prems" have l: "last (y # ys) \<noteq> []" by simp
  then have "join sep (y # ys) \<noteq> []" by (intro join_last_nonempty) simp_all
  then have "last (join sep (x # y # ys)) = last (join sep (y # ys))" by simp
  also from l have "\<dots> = last (last (y # ys))" by (intro "3.IH") simp_all
  finally show ?case by simp
qed simp_all

lemma length_sgpaHeaders: "length sgpaHeaders = 8"
  by (simp add: sgpaHeaders_def)

lemma csvRow_nonempty: "csvRow baseHeaders row \<noteq> []"
  unfolding csvRow_def Array_join_def
  by (rule join_nonempty) (simp_all add: rowCells_def sgpaData_def length_sgpaHeaders)

lemma noLineBreak_headers:
  assumes "list_all noLineBreak baseHeaders"
  shows "noLineBreak (join '','' (headersOf baseHeaders))"
proof (rule noLineBreak_join)
  show "noLineBreak '',''" by (simp add: noLineBreak_Cons)
  show "\<forall>x\<in>set (headersOf baseHeaders). noLineBreak x"
    using assms
    by (auto simp: headersOf_def sgpaHeaders_eq list_all_iff noLineBreak_Cons)
qed


subsection \<open>The cells of a row\<close>

lemma inherited_semester:
  "inherited ''sem1'' = Undefined" "inherited ''sem2'' = Undefined"
  "inherited ''sem3'' = Undefined" "inherited ''sem4'' = Undefined"
  "inherited ''sem5'' = Undefined" "inherited ''sem6'' = Undefined"
  "inherited ''sem7'' = Undefined" "inherited ''sem8'' = Undefined"
  by (simp_all add: inherited_def ObjectPrototypeFunctions_def)

lemma orEmptyString_Undefined: "JSON_stringify (orEmptyString Undefined) = Some emptyCell"
  by (simp add: orEmptyString_def emptyCell_def QuoteJSONString_def)

lemma orEmptyString_Val:
  "JSON_stringify (orEmptyString (Val v)) =
     Some (if ToBoolean (Val v) then SerializeJSON v else emptyCell)"
  by (simp add: orEmptyString_def emptyCell_def QuoteJSONString_def)

lemma sgpaData_eq:
  "sgpaData row =
     map (\<lambda>semester. JSON_stringify (orEmptyString (semesterValue row (Some semester))))
       [''sem1'', ''sem2'', ''sem3'', ''sem4'', ''sem5'', ''sem6'', ''sem7'', ''sem8'']"
  by (simp add: sgpaData_def sgpaHeaders_eq sgpaCell_def at_def)

lemma instituteNameData_eq:
  "instituteNameData row =
     (case map_of row ''instituteName'' of
        Some v \<Rightarrow> Some (if ToBoolean (Val v) then SerializeJSON v else emptyCell)
      | None \<Rightarrow> Some emptyCell)"
  by (simp add: instituteNameData_def getProp_instituteName orEmptyString_Undefined
      orEmptyString_Val split: option.splits)

lemma baseCell_own:
  "map_of row header = Some v \<Longrightarrow>
     baseCell row header = Some (if ToBoolean (Val v) then SerializeJSON v else emptyCell)"
  by (simp add: baseCell_def getProp_def orEmptyString_Val)

lemma baseCell_missing:
  "map_of row header = None \<Longrightarrow> inherited header = Undefined \<Longrightarrow>
     baseCell row header = Some emptyCell"
  by (simp add: baseCell_def getProp_def orEmptyString_Undefined)

lemma semesterValue_eq:
  assumes "semester \<in> set [''sem1'', ''sem2'', ''sem3'', ''sem4'', ''sem5'', ''sem6'', ''sem7'', ''sem8'']"
  shows "JSON_stringify (orEmptyString (semesterValue row (Some semester))) =
     (case map_of row ''SGPA'' of
        Some (JObj kvs) \<Rightarrow>
          (case map_of kvs semester of
             Some v \<Rightarrow> Some (if ToBoolean (Val v) then SerializeJSON v else emptyCell)
           | None \<Rightarrow> Some emptyCell)
      | _ \<Rightarrow> Some emptyCell)"
proof -
  from assms have i: "inherited semester = Undefined"
    using inherited_semester by auto
  have g: "getProp kvs semester = (case map_of kvs semester of Some v \<Rightarrow> Val v | None \<Rightarrow> Undefined)"
    for kvs
    by (simp add: getProp_def i split: option.splits)
  have "semesterValue row (Some semester) =
      (case map_of row ''SGPA'' of
         Some (JObj kvs) \<Rightarrow> (case map_of kvs semester of Some v \<Rightarrow> Val v | None \<Rightarrow> Undefined)
       | _ \<Rightarrow> Undefined)"
    by (simp add: semesterValue_def getProp_SGPA g split: option.splits json.splits)
  then show ?thesis
    by (simp add: orEmptyString_Undefined orEmptyString_Val split: option.splits json.splits)
qed

lemma csvRow_scenarioA3:
  \<open>csvRow [''rollNo''] scenarioA3 = ''"A3","","","","","","","","","Y"''\<close>
  by (simp add: csvRow_def rowCells_def rowData_def Array_join_def sgpaData_eq
      instituteNameData_eq baseCell_own semesterValue_eq scenarioA3_def emptyCell_def
      QuoteJSONString_def escapeChar_def)

lemma csvRow_scenarioA1:
  \<open>csvRow [''rollNo''] scenarioA1 = ''"A1",8.5,"","","","","","","","X"''\<close>
  by (simp add: csvRow_def rowCells_def rowData_def Array_join_def sgpaData_eq
      instituteNameData_eq baseCell_own semesterValue_eq scenarioA1_def emptyCell_def
      QuoteJSONString_def escapeChar_def stripZeros.simps digits.simps digitChar_def
      layoutDecimal_def)

lemma quote_not_decimal: "CHR 0x22 \<notin> set decimalChars"
  by (simp add: decimalChars_def)

lemma QuoteJSONString_ends:
  "hd (QuoteJSONString s) = CHR 0x22 \<and> last (QuoteJSONString s) = CHR 0x22"
  by (simp add: QuoteJSONString_def)

lemma SerializeJSON_number_unquoted: "CHR 0x22 \<notin> set (SerializeJSON (JNum n))"
proof (cases n)
  case (Decimal neg m e)
  with Number_toString_decimal [of neg m e] quote_not_decimal show ?thesis
    by (auto simp del: Number_toString.simps)
qed simp_all

lemma Number_toString_85: "Number_toString (Decimal False 85 (- 1)) = ''8.5''"
  by (simp add: stripZeros.simps digits.simps digitChar_def layoutDecimal_def)

lemma sgpaCell_sem1:
  "sgpaCell row ''SGPA_sem1'' = JSON_stringify (orEmptyString (semesterValue row (Some ''sem1'')))"
  by (simp add: sgpaCell_def at_def)

lemma jsonToCsv_scenario:
  assumes "0 < lc ''A3'' ''A1''"
  shows \<open>jsonToCsv lc scenario =
     Inr ''rollNo,SGPA_sem1,SGPA_sem2,SGPA_sem3,SGPA_sem4,SGPA_sem5,SGPA_sem6,SGPA_sem7,SGPA_sem8,instituteName\<newline>"A3","","","","","","","","","Y"\<newline>"A1",8.5,"","","","","","","","X"''\<close>
proof -
  have bh: "baseHeadersOf scenarioA3 = [''rollNo'']"
    by (simp add: baseHeadersOf_def Object_keys_def scenarioA3_def)
  have "jsonToCsv lc scenario = render [scenarioA3, scenarioA1]"
    using Array_sort_scenario [of lc, OF assms] by (simp add: jsonToCsv_def scenario_def)
  then show ?thesis
    by (simp add: render_def bh headersOf_def sgpaHeaders_eq csvRow_scenarioA3 csvRow_scenarioA1)
qed

lemma rowCells_scenarioA3:
  \<open>rowCells [''rollNo''] scenarioA3 =
     [Some ''"A3"'', Some ''""'', Some ''""'', Some ''""'', Some ''""'', Some ''""'',
      Some ''""'', Some ''""'', Some ''""'', Some ''"Y"'']\<close>
  by (simp add: rowCells_def rowData_def sgpaData_eq instituteNameData_eq baseCell_own
      semesterValue_eq scenarioA3_def emptyCell_def QuoteJSONString_def escapeChar_def)

lemma rowCells_scenarioA1:
  \<open>rowCells [''rollNo''] scenarioA1 =
     [Some ''"A1"'', Some ''8.5'', Some ''""'', Some ''""'', Some ''""'', Some ''""'',
      Some ''""'', Some ''""'', Some ''""'', Some ''"X"'']\<close>
  by (simp add: rowCells_def rowData_def sgpaData_eq instituteNameData_eq baseCell_own
      semesterValue_eq scenarioA1_def emptyCell_def QuoteJSONString_def escapeChar_def
      Number_toString_85 del: Number_toString.simps)

lemma asRecords_map: "asRecords (map JObj rs) = Some rs"
  by (induction rs) simp_all

subsection \<open>The conversion of a file\<close>

lemma tryBlock_cases:
  "tryBlock rt inputFilePath outputFilePath w =
     (case readFile w inputFilePath of
        Inl e \<Rightarrow> (Inl e, w)
      | Inr data \<Rightarrow>
          (case JSON_parse rt data of
             Inl e \<Rightarrow> (Inl e, w)
           | Inr jsonData \<Rightarrow>
               (case callJsonToCsv rt jsonData of
                  Inl e \<Rightarrow> (Inl e, w)
                | Inr csvData \<Rightarrow>
                    if writable w outputFilePath
                    then (Inr (),
                          w\<lparr>files := (files w)(outputFilePath \<mapsto> csvData),
                            console := console w @ [Log (''CSV file has been saved to '' @ outputFilePath)]\<rparr>)
                    else (Inl SystemError, w))))"
  by (simp add: tryBlock_def writeFile_def console_log_def split: sum.splits)

lemma convert_failure:
  "tryBlock rt inputFilePath outputFilePath w = (Inl e, w') \<Longrightarrow>
     convertJsonFileToCsv rt inputFilePath outputFilePath w =
       (Inr (), w'\<lparr>console := console w' @ [LogError ''Error converting JSON to CSV:'' e]\<rparr>)"
  by (simp add: convertJsonFileToCsv_def catchBlock_def console_error_def)

lemma tryBlock_failure_world:
  "fst (tryBlock rt inputFilePath outputFilePath w) = Inl e \<Longrightarrow>
     snd (tryBlock rt inputFilePath outputFilePath w) = w"
  by (auto simp: tryBlock_cases split: sum.splits if_splits)

lemma jsonToCsv_no_rollNo: "jsonToCsv lc [[], []] = Inl TypeError"
  by (simp add: jsonToCsv_def compareFn_def getProp_rollNo)

section \<open>The claims\<close>

subsection \<open>C1: the rows are in descending order of \<^verbatim>\<open>rollNo\<close>\<close>



subsection \<open>C2: the cell of a base header\<close>

text \<open>
  The claim of C2 fails on numbers: the cell of the field \<^verbatim>\<open>marks\<close> of the record
  \<^verbatim>\<open>{"marks": 8.5}\<close> is the bare text \<^verbatim>\<open>8.5\<close>, not the quoted text \<^verbatim>\<open>"8.5"\<close>.
\<close>

theorem baseCell_counterexample:
  "baseCell [(''marks'', JNum (Decimal False 85 (- 1)))] ''marks'' = Some ''8.5'' \<and>
   baseCell [(''marks'', JNum (Decimal False 85 (- 1)))] ''marks'' \<noteq> Some (QuoteJSONString ''8.5'')"
proof -
  have "baseCell [(''marks'', JNum (Decimal False 85 (- 1)))] ''marks'' = Some ''8.5''"
    by (simp add: baseCell_own Number_toString_85 del: Number_toString.simps)
  then show ?thesis by (simp add: QuoteJSONString_def)
qed

text \<open>
  C2, as amended. For every record and every header, the cell is the JSON encoding of
  the record's value for that field when the value is truthy: a text becomes quoted
  text (it starts and ends with a double quote), a number its bare decimal text (no
  double quote in it). A value that is falsy becomes the empty quoted cell, and so does
  a missing value when no object inherits a property of that name.
\<close>

theorem baseCell_value:
  "(\<forall>v. map_of row header = Some v \<and> ToBoolean (Val v) \<longrightarrow>
      baseCell row header = Some (SerializeJSON v)) \<and>
   (\<forall>s. map_of row header = Some (JStr s) \<longrightarrow>
      baseCell row header = Some (QuoteJSONString s) \<and>
      hd (QuoteJSONString s) = CHR 0x22 \<and> last (QuoteJSONString s) = CHR 0x22) \<and>
   (\<forall>n. map_of row header = Some (JNum n) \<and> ToBoolean (Val (JNum n)) \<longrightarrow>
      baseCell row header = Some (SerializeJSON (JNum n)) \<and>
      CHR 0x22 \<notin> set (SerializeJSON (JNum n))) \<and>
   (\<forall>v. map_of row header = Some v \<and> \<not> ToBoolean (Val v) \<longrightarrow>
      baseCell row header = Some emptyCell) \<and>
   (map_of row header = None \<and> inherited header = Undefined \<longrightarrow>
      baseCell row header = Some emptyCell)"
proof -
  have str: "baseCell row header = Some (QuoteJSONString s)"
    if "map_of row header = Some (JStr s)" for s
    using baseCell_own [OF that]
    by (cases "s = []") (simp_all add: emptyCell_def QuoteJSONString_def)
  show ?thesis
    using str QuoteJSONString_ends SerializeJSON_number_unquoted
    by (auto simp: baseCell_own baseCell_missing simp del: SerializeJSON.simps)
qed

theorem baseCell_value_witness:
  \<open>baseCell scenarioA1 ''rollNo'' = Some ''"A1"'' \<and>
   baseCell [(''marks'', JNum (Decimal False 85 (- 1)))] ''marks'' = Some ''8.5'' \<and>
   baseCell [(''backlogs'', JNum (Decimal False 0 0))] ''backlogs'' = Some ''""'' \<and>
   baseCell scenarioA1 ''branch'' = Some ''""''\<close>
proof -
  have 1: "map_of scenarioA1 ''rollNo'' = Some (JStr ''A1'')"
    by (simp add: scenarioA1_def)
  have 2: "map_of [(''marks'', JNum (Decimal False 85 (- 1)))] ''marks'' =
      Some (JNum (Decimal False 85 (- 1))) \<and> ToBoolean (Val (JNum (Decimal False 85 (- 1))))"
    by simp
  have 3: "map_of [(''backlogs'', JNum (Decimal False 0 0))] ''backlogs'' =
      Some (JNum (Decimal False 0 0)) \<and> \<not> ToBoolean (Val (JNum (Decimal False 0 0)))"
    by simp
  have 4: "map_of scenarioA1 ''branch'' = None \<and> inherited ''branch'' = Undefined"
    by (simp add: scenarioA1_def inherited_def ObjectPrototypeFunctions_def)
  from baseCell_value [of scenarioA1 "''rollNo''"] 1
  have "baseCell scenarioA1 ''rollNo'' = Some (QuoteJSONString ''A1'')" by blast
  moreover from baseCell_value [of "[(''marks'', JNum (Decimal False 85 (- 1)))]" "''marks''"] 2
  have "baseCell [(''marks'', JNum (Decimal False 85 (- 1)))] ''marks'' =
      Some (SerializeJSON (JNum (Decimal False 85 (- 1))))" by blast
  moreover from baseCell_value [of "[(''backlogs'', JNum (Decimal False 0 0))]" "''backlogs''"] 3
  have "baseCell [(''backlogs'', JNum (Decimal False 0 0))] ''backlogs'' = Some emptyCell" by blast
  moreover from baseCell_value [of scenarioA1 "''branch''"] 4
  have "baseCell scenarioA1 ''branch'' = Some emptyCell" by blast
  ultimately show ?thesis
    by (simp add: QuoteJSONString_def escapeChar_def emptyCell_def Number_toString_85
        del: Number_toString.simps)
qed

subsection \<open>C3: the scenario of the specification\<close>

text \<open>
  The claim of C3 fails on its own input: the row of \<^verbatim>\<open>A1\<close> has the bare text \<^verbatim>\<open>8.5\<close> in
  the column \<^verbatim>\<open>SGPA_sem1\<close>, not the quoted cell \<^verbatim>\<open>"8.5"\<close>.
\<close>

theorem scenario_counterexample:
  \<open>jsonToCsv codeUnitCompare scenario =
     Inr ''rollNo,SGPA_sem1,SGPA_sem2,SGPA_sem3,SGPA_sem4,SGPA_sem5,SGPA_sem6,SGPA_sem7,SGPA_sem8,instituteName\<newline>"A3","","","","","","","","","Y"\<newline>"A1",8.5,"","","","","","","","X"'' \<and>
   sgpaCell scenarioA1 ''SGPA_sem1'' = Some ''8.5'' \<and>
   sgpaCell scenarioA1 ''SGPA_sem1'' \<noteq> Some ''"8.5"''\<close>
proof -
  have "sgpaCell scenarioA1 ''SGPA_sem1'' = Some ''8.5''"
    by (simp add: sgpaCell_sem1 semesterValue_eq scenarioA1_def Number_toString_85
        del: Number_toString.simps)
  moreover have "(0 :: int) < codeUnitCompare ''A3'' ''A1''" by simp
  ultimately show ?thesis
    by (simp add: jsonToCsv_scenario)
qed

text \<open>
  C3, as amended. On the input of the scenario, under a consistent collation that
  puts \<^verbatim>\<open>A3\<close> after \<^verbatim>\<open>A1\<close>, \<^verbatim>\<open>jsonToCsv\<close> returns the header, then the row of \<^verbatim>\<open>A3\<close>, then
  the row of \<^verbatim>\<open>A1\<close>. The row of \<^verbatim>\<open>A3\<close> has the empty quoted cell in every \<^verbatim>\<open>SGPA_sem\<close>
  column. The row of \<^verbatim>\<open>A1\<close> has the bare text \<^verbatim>\<open>8.5\<close> in the column \<^verbatim>\<open>SGPA_sem1\<close> and the
  empty quoted cell in the columns of \<^verbatim>\<open>sem2\<close> to \<^verbatim>\<open>sem8\<close>.
\<close>

theorem scenario_output:
  assumes "consistentCompare lc" and "0 < lc ''A3'' ''A1''"
  shows \<open>jsonToCsv lc scenario =
     Inr ''rollNo,SGPA_sem1,SGPA_sem2,SGPA_sem3,SGPA_sem4,SGPA_sem5,SGPA_sem6,SGPA_sem7,SGPA_sem8,instituteName\<newline>"A3","","","","","","","","","Y"\<newline>"A1",8.5,"","","","","","","","X"'' \<and>
   rowCells [''rollNo''] scenarioA3 =
     [Some ''"A3"'', Some ''""'', Some ''""'', Some ''""'', Some ''""'', Some ''""'',
      Some ''""'', Some ''""'', Some ''""'', Some ''"Y"''] \<and>
   rowCells [''rollNo''] scenarioA1 =
     [Some ''"A1"'', Some ''8.5'', Some ''""'', Some ''""'', Some ''""'', Some ''""'',
      Some ''""'', Some ''""'', Some ''""'', Some ''"X"'']\<close>
  using jsonToCsv_scenario [of lc, OF assms(2)] rowCells_scenarioA3 rowCells_scenarioA1
  by (intro conjI)

theorem scenario_output_witness:
  \<open>consistentCompare codeUnitCompare \<and> 0 < codeUnitCompare ''A3'' ''A1'' \<and>
   jsonToCsv codeUnitCompare scenario =
     Inr ''rollNo,SGPA_sem1,SGPA_sem2,SGPA_sem3,SGPA_sem4,SGPA_sem5,SGPA_sem6,SGPA_sem7,SGPA_sem8,instituteName\<newline>"A3","","","","","","","","","Y"\<newline>"A1",8.5,"","","","","","","","X"''\<close>
proof -
  have lt: "0 < codeUnitCompare ''A3'' ''A1''" by simp
  from scenario_output [of codeUnitCompare, OF consistent_codeUnitCompare lt] consistent_codeUnitCompare lt
  show ?thesis by blast
qed

subsection \<open>C4: the header row\<close>



subsection \<open>C5: the lines of the text\<close>

text \<open>
  The claim of C5 fails on the record \<^verbatim>\<open>{"roll\nNo": "7"}\<close>, whose one field name holds
  a line feed: the text for this single record has three lines, not two.
\<close>

theorem jsonToCsv_lines_counterexample:
  \<open>jsonToCsv codeUnitCompare [[(''roll\<newline>No'', JStr ''7'')]] =
     Inr ''roll\<newline>No,SGPA_sem1,SGPA_sem2,SGPA_sem3,SGPA_sem4,SGPA_sem5,SGPA_sem6,SGPA_sem7,SGPA_sem8,instituteName\<newline>"7","","","","","","","","",""'' \<and>
   linesOf ''roll\<newline>No,SGPA_sem1,SGPA_sem2,SGPA_sem3,SGPA_sem4,SGPA_sem5,SGPA_sem6,SGPA_sem7,SGPA_sem8,instituteName\<newline>"7","","","","","","","","",""'' =
     [''roll'',
      ''No,SGPA_sem1,SGPA_sem2,SGPA_sem3,SGPA_sem4,SGPA_sem5,SGPA_sem6,SGPA_sem7,SGPA_sem8,instituteName'',
      ''"7","","","","","","","","",""''] \<and>
   length [[(''roll\<newline>No'', JStr ''7'')]] + 1 = (2 :: nat)\<close>
proof -
  have row: \<open>csvRow [''roll\<newline>No''] [(''roll\<newline>No'', JStr ''7'')] = ''"7","","","","","","","","",""''\<close>
    by (simp add: csvRow_def rowCells_def rowData_def Array_join_def sgpaData_eq
        instituteNameData_eq baseCell_own semesterValue_eq emptyCell_def
        QuoteJSONString_def escapeChar_def)
  have \<open>jsonToCsv codeUnitCompare [[(''roll\<newline>No'', JStr ''7'')]] =
     Inr ''roll\<newline>No,SGPA_sem1,SGPA_sem2,SGPA_sem3,SGPA_sem4,SGPA_sem5,SGPA_sem6,SGPA_sem7,SGPA_sem8,instituteName\<newline>"7","","","","","","","","",""''\<close>
    by (simp add: jsonToCsv_def render_def baseHeadersOf_def Object_keys_def headersOf_def
        sgpaHeaders_eq row)
  moreover have \<open>linesOf ''roll\<newline>No,SGPA_sem1,SGPA_sem2,SGPA_sem3,SGPA_sem4,SGPA_sem5,SGPA_sem6,SGPA_sem7,SGPA_sem8,instituteName\<newline>"7","","","","","","","","",""'' =
     [''roll'',
      ''No,SGPA_sem1,SGPA_sem2,SGPA_sem3,SGPA_sem4,SGPA_sem5,SGPA_sem6,SGPA_sem7,SGPA_sem8,instituteName'',
      ''"7","","","","","","","","",""'']\<close>
    by (simp add: linesOf_def)
  ultimately show ?thesis by simp
qed

text \<open>
  C5, as amended. For every non-empty collection of \<open>N\<close> records on which the
  comparison is defined, the text is the header and \<open>N\<close> rows joined by single line
  feeds, with none after the last row; no row holds a line feed or a carriage return.
  When no field name in the header holds one either, the text has exactly \<open>N + 1\<close>
  lines, the header and the rows, and no carriage return.
\<close>

theorem jsonToCsv_lines:
  assumes "jsonData \<noteq> []" and "sortable jsonData"
  shows "\<exists>sortedData header rows csv.
     Array_sort (compareFn lc) jsonData = Inr sortedData \<and>
     header = join '','' (headersOf (baseHeadersOf (hd sortedData))) \<and>
     rows = map (csvRow (baseHeadersOf (hd sortedData))) sortedData \<and>
     jsonToCsv lc jsonData = Inr csv \<and>
     csv = join ''\<newline>'' (header # rows) \<and>
     length rows = length jsonData \<and>
     (\<forall>row\<in>set rows. noLineBreak row) \<and>
     csv \<noteq> [] \<and> last csv \<noteq> CHR 0x0A \<and>
     (list_all noLineBreak (baseHeadersOf (hd sortedData)) \<longrightarrow>
        linesOf csv = header # rows \<and>
        length (linesOf csv) = length jsonData + 1 \<and>
        CHR 0x0D \<notin> set csv)"
proof -
  from jsonToCsv_sortable [OF assms, of lc] obtain sortedData
    where s: "Array_sort (compareFn lc) jsonData = Inr sortedData"
      "mset sortedData = mset jsonData" "sortedData \<noteq> []"
      "jsonToCsv lc jsonData =
         Inr (join ''\<newline>''
           (join '','' (headersOf (baseHeadersOf (hd sortedData)))
            # map (csvRow (baseHeadersOf (hd sortedData))) sortedData))"
    by blast
  define header where "header = join '','' (headersOf (baseHeadersOf (hd sortedData)))"
  define rows where "rows = map (csvRow (baseHeadersOf (hd sortedData))) sortedData"
  define csv where "csv = join ''\<newline>'' (header # rows)"
  from s(2) have "length sortedData = length jsonData" by (rule mset_eq_length)
  then have len: "length rows = length jsonData" by (simp add: rows_def)
  have nb: "\<forall>row\<in>set rows. noLineBreak row"
    by (auto simp: rows_def noLineBreak_csvRow)
  have rne: "rows \<noteq> []" using s(3) by (simp add: rows_def)
  have "last rows \<in> set rows" using rne by simp
  then obtain r where "last rows = csvRow (baseHeadersOf (hd sortedData)) r"
    by (auto simp: rows_def)
  then have lr: "last rows \<noteq> []" "noLineBreak (last rows)"
    by (simp_all add: csvRow_nonempty noLineBreak_csvRow)
  have lt: "last csv = last (last rows)"
    unfolding csv_def using rne lr(1) by (subst last_join) simp_all
  have "last (last rows) \<in> set (last rows)" using lr(1) by simp
  with lr(2) lt have last: "last csv \<noteq> CHR 0x0A" by (auto simp: noLineBreak_def)
  have tne: "csv \<noteq> []"
    unfolding csv_def using rne by (intro join_nonempty) (cases rows, simp_all)
  have cond: "linesOf csv = header # rows \<and>
      length (linesOf csv) = length jsonData + 1 \<and> CHR 0x0D \<notin> set csv"
    if "list_all noLineBreak (baseHeadersOf (hd sortedData))"
  proof -
    from that have hb: "noLineBreak header"
      unfolding header_def by (rule noLineBreak_headers)
    with nb have all: "\<forall>x\<in>set (header # rows). CHR 0x0A \<notin> set x"
      by (auto simp: noLineBreak_def)
    have lines: "linesOf csv = header # rows"
      unfolding linesOf_def csv_def using all by (intro split_join) simp_all
    have "set csv \<subseteq> set ''\<newline>'' \<union> \<Union> (set ` set (header # rows))"
      unfolding csv_def by (rule set_join)
    moreover have "CHR 0x0D \<notin> set x" if "x \<in> set (header # rows)" for x
      using that hb nb by (auto simp: noLineBreak_def)
    ultimately have "CHR 0x0D \<notin> set csv" by auto
    with lines len show ?thesis by simp
  qed
  have j: "jsonToCsv lc jsonData = Inr csv"
    using s(4) by (simp only: csv_def header_def rows_def)
  have "Array_sort (compareFn lc) jsonData = Inr sortedData \<and>
     header = join '','' (headersOf (baseHeadersOf (hd sortedData))) \<and>
     rows = map (csvRow (baseHeadersOf (hd sortedData))) sortedData \<and>
     jsonToCsv lc jsonData = Inr csv \<and>
     csv = join ''\<newline>'' (header # rows) \<and>
     length rows = length jsonData \<and>
     (\<forall>row\<in>set rows. noLineBreak row) \<and>
     csv \<noteq> [] \<and> last csv \<noteq> CHR 0x0A \<and>
     (list_all noLineBreak (baseHeadersOf (hd sortedData)) \<longrightarrow>
        linesOf csv = header # rows \<and>
        length (linesOf csv) = length jsonData + 1 \<and>
        CHR 0x0D \<notin> set csv)"
    using s(1) header_def rows_def j csv_def len nb tne last cond by blast
  then show ?thesis
    by (intro exI [of _ sortedData] exI [of _ header] exI [of _ rows] exI [of _ csv])
qed

theorem jsonToCsv_lines_witness:
  \<open>scenario \<noteq> [] \<and> sortable scenario \<and>
   list_all noLineBreak (baseHeadersOf scenarioA3) \<and>
   (\<exists>csv. jsonToCsv codeUnitCompare scenario = Inr csv \<and>
      linesOf csv =
        [''rollNo,SGPA_sem1,SGPA_sem2,SGPA_sem3,SGPA_sem4,SGPA_sem5,SGPA_sem6,SGPA_sem7,SGPA_sem8,instituteName'',
         ''"A3","","","","","","","","","Y"'',
         ''"A1",8.5,"","","","","","","","X"''] \<and>
      length (linesOf csv) = length scenario + 1 \<and>
      CHR 0x0D \<notin> set csv \<and> last csv \<noteq> CHR 0x0A)\<close>
proof -
  have ne: "scenario \<noteq> []" by (simp add: scenario_def)
  have sorted: "Array_sort (compareFn codeUnitCompare) scenario = Inr [scenarioA3, scenarioA1]"
    by (rule Array_sort_scenario) simp
  have bh: "baseHeadersOf scenarioA3 = [''rollNo'']"
    by (simp add: baseHeadersOf_def Object_keys_def scenarioA3_def)
  have nb: "list_all noLineBreak (baseHeadersOf scenarioA3)"
    by (simp add: bh noLineBreak_Cons)
  from jsonToCsv_lines [OF ne sortable_scenario, of codeUnitCompare]
  obtain sortedData header rows csv where
    a: "Array_sort (compareFn codeUnitCompare) scenario = Inr sortedData"
    and h: "header = join '','' (headersOf (baseHeadersOf (hd sortedData)))"
    and r: "rows = map (csvRow (baseHeadersOf (hd sortedData))) sortedData"
    and j: "jsonToCsv codeUnitCompare scenario = Inr csv"
    and l: "last csv \<noteq> CHR 0x0A"
    and c: "list_all noLineBreak (baseHeadersOf (hd sortedData)) \<longrightarrow>
        linesOf csv = header # rows \<and>
        length (linesOf csv) = length scenario + 1 \<and>
        CHR 0x0D \<notin> set csv"
    by blast
  from a sorted have sd: "sortedData = [scenarioA3, scenarioA1]" by simp
  from h sd have h': "header =
      ''rollNo,SGPA_sem1,SGPA_sem2,SGPA_sem3,SGPA_sem4,SGPA_sem5,SGPA_sem6,SGPA_sem7,SGPA_sem8,instituteName''"
    by (simp add: bh headersOf_def sgpaHeaders_eq)
  from r sd have r': \<open>rows = [''"A3","","","","","","","","","Y"'', ''"A1",8.5,"","","","","","","","X"'']\<close>
    by (simp add: bh csvRow_scenarioA3 csvRow_scenarioA1)
  from c [unfolded sd list.sel] nb have k: "linesOf csv = header # rows"
    "length (linesOf csv) = length scenario + 1" "CHR 0x0D \<notin> set csv"
    by blast+
  from k(1) h' r' have \<open>linesOf csv =
      [''rollNo,SGPA_sem1,SGPA_sem2,SGPA_sem3,SGPA_sem4,SGPA_sem5,SGPA_sem6,SGPA_sem7,SGPA_sem8,instituteName'',
       ''"A3","","","","","","","","","Y"'',
       ''"A1",8.5,"","","","","","","","X"'']\<close>
    by simp
  with k(2,3) j l ne sortable_scenario nb show ?thesis by blast
qed

subsection \<open>C6: the empty collection\<close>

text \<open>
  C6. For the empty input collection, \<^verbatim>\<open>jsonToCsv\<close> returns the empty string: no
  header row is emitted.
\<close>

theorem jsonToCsv_empty: "jsonToCsv lc [] = Inr []"
  by (simp add: jsonToCsv_def)

subsection \<open>C7: the cells of \<^verbatim>\<open>SGPA\<close> and \<^verbatim>\<open>instituteName\<close>\<close>

text \<open>
  The claim of C7 fails on a semester whose value is 0: the record
  \<^verbatim>\<open>{"SGPA": {"sem1": 0}}\<close> has the key \<^verbatim>\<open>sem1\<close>, the JSON encoding of its value is \<^verbatim>\<open>0\<close>,
  and the cell is the empty quoted cell.
\<close>

theorem sgpaCell_counterexample:
  "map_of [(''sem1'', JNum (Decimal False 0 0))] ''sem1'' = Some (JNum (Decimal False 0 0)) \<and>
   SerializeJSON (JNum (Decimal False 0 0)) = ''0'' \<and>
   sgpaCell [(''SGPA'', JObj [(''sem1'', JNum (Decimal False 0 0))])] ''SGPA_sem1'' = Some emptyCell \<and>
   sgpaCell [(''SGPA'', JObj [(''sem1'', JNum (Decimal False 0 0))])] ''SGPA_sem1''
     \<noteq> Some (SerializeJSON (JNum (Decimal False 0 0)))"
  by (simp add: sgpaCell_sem1 semesterValue_eq emptyCell_def)

text \<open>
  C7, as amended. For every record, the cells of \<^verbatim>\<open>SGPA_sem1\<close> to \<^verbatim>\<open>SGPA_sem8\<close> are, in this
  order, for the keys \<^verbatim>\<open>sem1\<close> to \<^verbatim>\<open>sem8\<close>: the JSON encoding of the value at that key of
  the nested \<^verbatim>\<open>SGPA\<close> object when the value is truthy, and the empty quoted cell when the
  value is falsy, when the key is absent, and when \<^verbatim>\<open>SGPA\<close> is absent or is no object, so
  that a record without \<^verbatim>\<open>SGPA\<close> has eight empty quoted cells there. The cell of
  \<^verbatim>\<open>instituteName\<close>, the last of the row, is the JSON encoding of a truthy value and the
  empty quoted cell otherwise, in particular when the field is missing.
\<close>

theorem sgpa_and_instituteName_cells:
  "sgpaData row =
     map (\<lambda>semester.
            case map_of row ''SGPA'' of
              Some (JObj kvs) \<Rightarrow>
                (case map_of kvs semester of
                   Some v \<Rightarrow> Some (if ToBoolean (Val v) then SerializeJSON v else emptyCell)
                 | None \<Rightarrow> Some emptyCell)
            | _ \<Rightarrow> Some emptyCell)
       [''sem1'', ''sem2'', ''sem3'', ''sem4'', ''sem5'', ''sem6'', ''sem7'', ''sem8''] \<and>
   (map_of row ''SGPA'' = None \<longrightarrow> sgpaData row = replicate 8 (Some emptyCell)) \<and>
   instituteNameData row =
     (case map_of row ''instituteName'' of
        Some v \<Rightarrow> Some (if ToBoolean (Val v) then SerializeJSON v else emptyCell)
      | None \<Rightarrow> Some emptyCell) \<and>
   rowCells baseHeaders row = rowData baseHeaders row @ sgpaData row @ [instituteNameData row] \<and>
   (map_of row ''instituteName'' = None \<longrightarrow> last (rowCells baseHeaders row) = Some emptyCell)"
proof -
  have s: "sgpaData row =
     map (\<lambda>semester.
            case map_of row ''SGPA'' of
              Some (JObj kvs) \<Rightarrow>
                (case map_of kvs semester of
                   Some v \<Rightarrow> Some (if ToBoolean (Val v) then SerializeJSON v else emptyCell)
                 | None \<Rightarrow> Some emptyCell)
            | _ \<Rightarrow> Some emptyCell)
       [''sem1'', ''sem2'', ''sem3'', ''sem4'', ''sem5'', ''sem6'', ''sem7'', ''sem8'']"
    unfolding sgpaData_eq by (rule map_cong [OF refl]) (rule semesterValue_eq)
  have n: "sgpaData row = replicate 8 (Some emptyCell)" if "map_of row ''SGPA'' = None"
    unfolding s using that by (simp add: numeral_eq_Suc)
  have l: "last (rowCells baseHeaders row) = Some emptyCell"
    if "map_of row ''instituteName'' = None"
    using that by (simp add: rowCells_def instituteNameData_eq)
  show ?thesis
    using s n l instituteNameData_eq [of row] rowCells_def [of baseHeaders row]
    by (intro conjI impI) assumption+
qed

theorem sgpa_and_instituteName_cells_witness:
  \<open>map_of [(''rollNo'', JStr ''A1'')] ''SGPA'' = None \<and>
   map_of [(''rollNo'', JStr ''A1'')] ''instituteName'' = None \<and>
   sgpaData [(''rollNo'', JStr ''A1'')] = replicate 8 (Some ''""'') \<and>
   last (rowCells [''rollNo''] [(''rollNo'', JStr ''A1'')]) = Some ''""'' \<and>
   sgpaData scenarioA1 =
     [Some ''8.5'', Some ''""'', Some ''""'', Some ''""'', Some ''""'', Some ''""'',
      Some ''""'', Some ''""'']\<close>
proof -
  have m: "map_of [(''rollNo'', JStr ''A1'')] ''SGPA'' = None"
    "map_of [(''rollNo'', JStr ''A1'')] ''instituteName'' = None"
    by simp_all
  from sgpa_and_instituteName_cells [of "[(''rollNo'', JStr ''A1'')]" "[''rollNo'']"] m
  have "sgpaData [(''rollNo'', JStr ''A1'')] = replicate 8 (Some emptyCell)"
    "last (rowCells [''rollNo''] [(''rollNo'', JStr ''A1'')]) = Some emptyCell"
    by blast+
  moreover from sgpa_and_instituteName_cells [of scenarioA1 "[]"]
  have \<open>sgpaData scenarioA1 =
     [Some ''8.5'', Some ''""'', Some ''""'', Some ''""'', Some ''""'', Some ''""'',
      Some ''""'', Some ''""'']\<close>
    by (simp add: scenarioA1_def emptyCell_def Number_toString_85 del: Number_toString.simps)
  ultimately show ?thesis using m by (simp add: emptyCell_def)
qed

subsection \<open>C8: no error reaches the caller\<close>

text \<open>
  C8. For every runtime, world and pair of paths, \<^verbatim>\<open>convertJsonFileToCsv\<close> ends with its
  promise fulfilled, never rejected. Whenever a step under \<^verbatim>\<open>try\<close> fails (the input cannot
  be read, \<^verbatim>\<open>JSON.parse\<close> throws, \<^verbatim>\<open>jsonToCsv\<close> throws, or the output cannot be written) the
  console gets one more line, the diagnostic with the error; when no step fails, the
  output file holds the text and the console says so.
\<close>

theorem convertJsonFileToCsv_never_raises:
  "fst (convertJsonFileToCsv rt inputFilePath outputFilePath w) = Inr () \<and>
   (\<forall>e. fst (tryBlock rt inputFilePath outputFilePath w) = Inl e \<longrightarrow>
      console (snd (convertJsonFileToCsv rt inputFilePath outputFilePath w)) =
        console w @ [LogError ''Error converting JSON to CSV:'' e]) \<and>
   (\<forall>e. readFile w inputFilePath = Inl e \<longrightarrow>
      fst (tryBlock rt inputFilePath outputFilePath w) = Inl e) \<and>
   (\<forall>data e. readFile w inputFilePath = Inr data \<and> JSON_parse rt data = Inl e \<longrightarrow>
      fst (tryBlock rt inputFilePath outputFilePath w) = Inl e) \<and>
   (\<forall>data jsonData e.
      readFile w inputFilePath = Inr data \<and> JSON_parse rt data = Inr jsonData \<and>
      callJsonToCsv rt jsonData = Inl e \<longrightarrow>
      fst (tryBlock rt inputFilePath outputFilePath w) = Inl e) \<and>
   (\<forall>data jsonData csvData.
      readFile w inputFilePath = Inr data \<and> JSON_parse rt data = Inr jsonData \<and>
      callJsonToCsv rt jsonData = Inr csvData \<and> \<not> writable w outputFilePath \<longrightarrow>
      fst (tryBlock rt inputFilePath outputFilePath w) = Inl SystemError) \<and>
   (\<forall>data jsonData csvData.
      readFile w inputFilePath = Inr data \<and> JSON_parse rt data = Inr jsonData \<and>
      callJsonToCsv rt jsonData = Inr csvData \<and> writable w outputFilePath \<longrightarrow>
      convertJsonFileToCsv rt inputFilePath outputFilePath w =
        (Inr (),
         w\<lparr>files := (files w)(outputFilePath \<mapsto> csvData),
           console := console w @ [Log (''CSV file has been saved to '' @ outputFilePath)]\<rparr>))"
proof (intro conjI allI impI)
  show "fst (convertJsonFileToCsv rt inputFilePath outputFilePath w) = Inr ()"
    by (cases "tryBlock rt inputFilePath outputFilePath w")
      (auto simp: convertJsonFileToCsv_def catchBlock_def split: sum.splits)
next
  fix e
  assume f: "fst (tryBlock rt inputFilePath outputFilePath w) = Inl e"
  then have "tryBlock rt inputFilePath outputFilePath w = (Inl e, w)"
    using tryBlock_failure_world [OF f] by (simp add: prod_eq_iff)
  then show "console (snd (convertJsonFileToCsv rt inputFilePath outputFilePath w)) =
      console w @ [LogError ''Error converting JSON to CSV:'' e]"
    by (simp add: convert_failure)
next
  fix e
  assume "readFile w inputFilePath = Inl e"
  then show "fst (tryBlock rt inputFilePath outputFilePath w) = Inl e"
    by (simp add: tryBlock_cases)
next
  fix data e
  assume "readFile w inputFilePath = Inr data \<and> JSON_parse rt data = Inl e"
  then show "fst (tryBlock rt inputFilePath outputFilePath w) = Inl e"
    by (simp add: tryBlock_cases)
next
  fix data jsonData e
  assume "readFile w inputFilePath = Inr data \<and> JSON_parse rt data = Inr jsonData \<and>
      callJsonToCsv rt jsonData = Inl e"
  then show "fst (tryBlock rt inputFilePath outputFilePath w) = Inl e"
    by (simp add: tryBlock_cases)
next
  fix data jsonData csvData
  assume "readFile w inputFilePath = Inr data \<and> JSON_parse rt data = Inr jsonData \<and>
      callJsonToCsv rt jsonData = Inr csvData \<and> \<not> writable w outputFilePath"
  then show "fst (tryBlock rt inputFilePath outputFilePath w) = Inl SystemError"
    by (simp add: tryBlock_cases)
next
  fix data jsonData csvData
  assume "readFile w inputFilePath = Inr data \<and> JSON_parse rt data = Inr jsonData \<and>
      callJsonToCsv rt jsonData = Inr csvData \<and> writable w outputFilePath"
  then show "convertJsonFileToCsv rt inputFilePath outputFilePath w =
      (Inr (),
       w\<lparr>files := (files w)(outputFilePath \<mapsto> csvData),
         console := console w @ [Log (''CSV file has been saved to '' @ outputFilePath)]\<rparr>)"
    by (simp add: convertJsonFileToCsv_def tryBlock_cases)
qed

theorem convertJsonFileToCsv_never_raises_witness:
  "fst (convertJsonFileToCsv exampleRuntime ''missing.json'' ''results.csv'' exampleWorld) = Inr () \<and>
   console (snd (convertJsonFileToCsv exampleRuntime ''missing.json'' ''results.csv'' exampleWorld)) =
     [LogError ''Error converting JSON to CSV:'' SystemError] \<and>
   console (snd (convertJsonFileToCsv exampleRuntime ''broken.json'' ''results.csv'' exampleWorld)) =
     [LogError ''Error converting JSON to CSV:'' SyntaxError] \<and>
   console (snd (convertJsonFileToCsv exampleRuntime ''empty.json'' ''results.csv'' exampleWorld)) =
     [LogError ''Error converting JSON to CSV:'' TypeError] \<and>
   console (snd (convertJsonFileToCsv exampleRuntime ''results.json'' ''elsewhere.csv'' exampleWorld)) =
     [LogError ''Error converting JSON to CSV:'' SystemError]"
proof -
  have c: "console exampleWorld = []" by (simp add: exampleWorld_def)
  have r1: "readFile exampleWorld ''missing.json'' = Inl SystemError"
    by (simp add: readFile_def exampleWorld_def)
  have r2: "readFile exampleWorld ''broken.json'' = Inr ''[{'' \<and>
      JSON_parse exampleRuntime ''[{'' = Inl SyntaxError"
    by (simp add: readFile_def exampleWorld_def exampleRuntime_def scenarioText_def)
  have "jsonToCsv codeUnitCompare [[], []] = Inl TypeError"
    by (simp add: jsonToCsv_def compareFn_def getProp_rollNo)
  then have r3: "readFile exampleWorld ''empty.json'' = Inr ''[{},{}]'' \<and>
      JSON_parse exampleRuntime ''[{},{}]'' = Inr (JArr [JObj [], JObj []]) \<and>
      callJsonToCsv exampleRuntime (JArr [JObj [], JObj []]) = Inl TypeError"
    by (simp add: readFile_def exampleWorld_def exampleRuntime_def scenarioText_def
        callJsonToCsv_def)
  have "\<exists>csvData. jsonToCsv codeUnitCompare scenario = Inr csvData"
    using jsonToCsv_scenario [of codeUnitCompare] by simp
  then obtain csvData where "jsonToCsv codeUnitCompare scenario = Inr csvData" ..
  then have r4: "readFile exampleWorld ''results.json'' = Inr scenarioText \<and>
      JSON_parse exampleRuntime scenarioText = Inr (JArr (map JObj scenario)) \<and>
      callJsonToCsv exampleRuntime (JArr (map JObj scenario)) = Inr csvData \<and>
      \<not> writable exampleWorld ''elsewhere.csv''"
    by (simp add: readFile_def exampleWorld_def exampleRuntime_def callJsonToCsv_def
        asRecords_map)
  note t1 = convertJsonFileToCsv_never_raises
    [of exampleRuntime "''missing.json''" "''results.csv''" exampleWorld]
  note t2 = convertJsonFileToCsv_never_raises
    [of exampleRuntime "''broken.json''" "''results.csv''" exampleWorld]
  note t3 = convertJsonFileToCsv_never_raises
    [of exampleRuntime "''empty.json''" "''results.csv''" exampleWorld]
  note t4 = convertJsonFileToCsv_never_raises
    [of exampleRuntime "''results.json''" "''elsewhere.csv''" exampleWorld]
  from t1 r1 have 1: "fst (convertJsonFileToCsv exampleRuntime ''missing.json'' ''results.csv'' exampleWorld) = Inr ()"
    "console (snd (convertJsonFileToCsv exampleRuntime ''missing.json'' ''results.csv'' exampleWorld)) =
      console exampleWorld @ [LogError ''Error converting JSON to CSV:'' SystemError]"
    by blast+
  from t2 r2 have 2:
    "console (snd (convertJsonFileToCsv exampleRuntime ''broken.json'' ''results.csv'' exampleWorld)) =
      console exampleWorld @ [LogError ''Error converting JSON to CSV:'' SyntaxError]"
    by blast
  from t3 r3 have 3:
    "console (snd (convertJsonFileToCsv exampleRuntime ''empty.json'' ''results.csv'' exampleWorld)) =
      console exampleWorld @ [LogError ''Error converting JSON to CSV:'' TypeError]"
    by blast
  from t4 r4 have 4:
    "console (snd (convertJsonFileToCsv exampleRuntime ''results.json'' ''elsewhere.csv'' exampleWorld)) =
      console exampleWorld @ [LogError ''Error converting JSON to CSV:'' SystemError]"
    by blast
  from 1 2 3 4 show ?thesis by (simp add: c)
qed

subsection \<open>C9: which fields a record needs\<close>

text \<open>
  The claim of C9 fails on the file \<^verbatim>\<open>[{},{}]\<close>, a well-formed array of two objects with
  no field at all: the comparison throws on the missing \<^verbatim>\<open>rollNo\<close>, the error is logged
  and no output is written, although the output path can be written.
\<close>

theorem convertJsonFileToCsv_succeeds_counterexample:
  "files exampleWorld ''empty.json'' = Some ''[{},{}]'' \<and>
   JSON_parse exampleRuntime ''[{},{}]'' = Inr (JArr (map JObj [[], []])) \<and>
   writable exampleWorld ''results.csv'' \<and>
   jsonToCsv (localeCompare exampleRuntime) [[], []] = Inl TypeError \<and>
   convertJsonFileToCsv exampleRuntime ''empty.json'' ''results.csv'' exampleWorld =
     (Inr (), exampleWorld\<lparr>console := [LogError ''Error converting JSON to CSV:'' TypeError]\<rparr>) \<and>
   files (snd (convertJsonFileToCsv exampleRuntime ''empty.json'' ''results.csv'' exampleWorld))
     ''results.csv'' = None"
proof -
  have f: "files exampleWorld ''empty.json'' = Some ''[{},{}]''"
    "writable exampleWorld ''results.csv''" "console exampleWorld = []"
    "files exampleWorld ''results.csv'' = None"
    by (simp_all add: exampleWorld_def)
  have p: "JSON_parse exampleRuntime ''[{},{}]'' = Inr (JArr [JObj [], JObj []])"
    "localeCompare exampleRuntime = codeUnitCompare"
    by (simp_all add: exampleRuntime_def scenarioText_def)
  have c: "callJsonToCsv exampleRuntime (JArr [JObj [], JObj []]) = Inl TypeError"
    unfolding callJsonToCsv_def by (simp add: jsonToCsv_no_rollNo)
  have "tryBlock exampleRuntime ''empty.json'' ''results.csv'' exampleWorld =
      (Inl TypeError, exampleWorld)"
    by (simp add: tryBlock_cases readFile_def f p c)
  then have "convertJsonFileToCsv exampleRuntime ''empty.json'' ''results.csv'' exampleWorld =
      (Inr (), exampleWorld\<lparr>console := [LogError ''Error converting JSON to CSV:'' TypeError]\<rparr>)"
    by (simp add: convert_failure f)
  with f p show ?thesis by (simp add: jsonToCsv_no_rollNo)
qed

text \<open>
  C9, as amended. For every input file whose content parses to an array of objects in
  which every record has a text \<^verbatim>\<open>rollNo\<close>, or which holds at most one record, and every
  output path that can be written, the conversion succeeds and writes the text of
  \<^verbatim>\<open>jsonToCsv\<close> to the output, whatever other fields each record has or omits.
\<close>

theorem convertJsonFileToCsv_succeeds:
  assumes "files w inputFilePath = Some data"
    and "JSON_parse rt data = Inr (JArr (map JObj jsonData))"
    and "sortable jsonData"
    and "writable w outputFilePath"
  shows "\<exists>csvData.
     jsonToCsv (localeCompare rt) jsonData = Inr csvData \<and>
     convertJsonFileToCsv rt inputFilePath outputFilePath w =
       (Inr (),
        w\<lparr>files := (files w)(outputFilePath \<mapsto> csvData),
          console := console w @ [Log (''CSV file has been saved to '' @ outputFilePath)]\<rparr>)"
proof -
  have "\<exists>csvData. jsonToCsv (localeCompare rt) jsonData = Inr csvData"
  proof (cases "jsonData = []")
    case True
    then show ?thesis by (simp add: jsonToCsv_def)
  next
    case False
    from jsonToCsv_sortable [OF False assms(3), of "localeCompare rt"]
    show ?thesis by blast
  qed
  then obtain csvData where j: "jsonToCsv (localeCompare rt) jsonData = Inr csvData" ..
  then have "callJsonToCsv rt (JArr (map JObj jsonData)) = Inr csvData"
    by (simp add: callJsonToCsv_def asRecords_map)
  with assms(1,2,4) have "convertJsonFileToCsv rt inputFilePath outputFilePath w =
      (Inr (),
       w\<lparr>files := (files w)(outputFilePath \<mapsto> csvData),
         console := console w @ [Log (''CSV file has been saved to '' @ outputFilePath)]\<rparr>)"
    by (simp add: convertJsonFileToCsv_def tryBlock_cases readFile_def)
  with j show ?thesis by blast
qed

theorem convertJsonFileToCsv_succeeds_witness:
  \<open>files exampleWorld ''results.json'' = Some scenarioText \<and>
   JSON_parse exampleRuntime scenarioText = Inr (JArr (map JObj scenario)) \<and>
   sortable scenario \<and> writable exampleWorld ''results.csv'' \<and>
   fst (convertJsonFileToCsv exampleRuntime ''results.json'' ''results.csv'' exampleWorld) = Inr () \<and>
   files (snd (convertJsonFileToCsv exampleRuntime ''results.json'' ''results.csv'' exampleWorld))
     ''results.csv'' =
     Some ''rollNo,SGPA_sem1,SGPA_sem2,SGPA_sem3,SGPA_sem4,SGPA_sem5,SGPA_sem6,SGPA_sem7,SGPA_sem8,instituteName\<newline>"A3","","","","","","","","","Y"\<newline>"A1",8.5,"","","","","","","","X"'' \<and>
   console (snd (convertJsonFileToCsv exampleRuntime ''results.json'' ''results.csv'' exampleWorld)) =
     [Log ''CSV file has been saved to results.csv'']\<close>
proof -
  have f: "files exampleWorld ''results.json'' = Some scenarioText"
    and w: "writable exampleWorld ''results.csv''"
    and c: "console exampleWorld = []"
    by (simp_all add: exampleWorld_def)
  have p: "JSON_parse exampleRuntime scenarioText = Inr (JArr (map JObj scenario))"
    and l: "localeCompare exampleRuntime = codeUnitCompare"
    by (simp_all add: exampleRuntime_def)
  have lt: "0 < codeUnitCompare ''A3'' ''A1''" by simp
  from convertJsonFileToCsv_succeeds [OF f p sortable_scenario w]
  obtain csvData where
    j: "jsonToCsv (localeCompare exampleRuntime) scenario = Inr csvData"
    and r: "convertJsonFileToCsv exampleRuntime ''results.json'' ''results.csv'' exampleWorld =
      (Inr (),
       exampleWorld\<lparr>files := (files exampleWorld)(''results.csv'' \<mapsto> csvData),
         console := console exampleWorld @ [Log (''CSV file has been saved to '' @ ''results.csv'')]\<rparr>)"
    by blast
  from j have \<open>csvData =
      ''rollNo,SGPA_sem1,SGPA_sem2,SGPA_sem3,SGPA_sem4,SGPA_sem5,SGPA_sem6,SGPA_sem7,SGPA_sem8,instituteName\<newline>"A3","","","","","","","","","Y"\<newline>"A1",8.5,"","","","","","","","X"''\<close>
    unfolding l jsonToCsv_scenario [of codeUnitCompare, OF lt] by simp
  with r f p w c sortable_scenario show ?thesis by simp
qed

subsection \<open>C10: falsy and absent values\<close>

text \<open>
  C10. The claim: a base field, a semester of \<^verbatim>\<open>SGPA\<close> or the \<^verbatim>\<open>instituteName\<close> whose
  value is present but falsy gets the empty quoted cell, as a field that is absent does.
  The code falls short of it on a base field whose name every object inherits: in
  \<^verbatim>\<open>[{"rollNo":"2","toString":0},{"rollNo":"1"}]\<close> the first record has the field
  \<^verbatim>\<open>toString\<close> with the falsy value 0 and the second record has no such field. The first
  gets the empty quoted cell; the second gets an empty cell without quotes, since
  \<^verbatim>\<open>row["toString"]\<close> finds the inherited function, which \<^verbatim>\<open>JSON.stringify\<close> turns into
  \<^verbatim>\<open>undefined\<close>. So the two rows differ in that column.
\<close>

theorem inherited_name_failing_input:
  \<open>baseCell [(''rollNo'', JStr ''2''), (''toString'', JNum (Decimal False 0 0))] ''toString'' =
     Some ''""'' \<and>
   baseCell [(''rollNo'', JStr ''1'')] ''toString'' = None \<and>
   jsonToCsv codeUnitCompare
     [[(''rollNo'', JStr ''2''), (''toString'', JNum (Decimal False 0 0))],
      [(''rollNo'', JStr ''1'')]] =
     Inr ''rollNo,toString,SGPA_sem1,SGPA_sem2,SGPA_sem3,SGPA_sem4,SGPA_sem5,SGPA_sem6,SGPA_sem7,SGPA_sem8,instituteName\<newline>"2","","","","","","","","","",""\<newline>"1",,"","","","","","","","",""''\<close>
proof -
  let ?r2 = "[(''rollNo'', JStr ''2''), (''toString'', JNum (Decimal False 0 0))]"
  let ?r1 = "[(''rollNo'', JStr ''1'')]"
  have b2: \<open>baseCell ?r2 ''toString'' = Some ''""''\<close>
    by (simp add: baseCell_own emptyCell_def)
  have b1: "baseCell ?r1 ''toString'' = None"
    by (simp add: baseCell_def getProp_def inherited_def ObjectPrototypeFunctions_def
        orEmptyString_def)
  have k2: \<open>baseCell ?r2 ''rollNo'' = Some ''"2"''\<close>
    by (simp add: baseCell_own QuoteJSONString_def escapeChar_def)
  have k1: \<open>baseCell ?r1 ''rollNo'' = Some ''"1"''\<close>
    by (simp add: baseCell_own QuoteJSONString_def escapeChar_def)
  have row2: \<open>csvRow [''rollNo'', ''toString''] ?r2 = ''"2","","","","","","","","","",""''\<close>
    by (simp add: csvRow_def rowCells_def rowData_def Array_join_def sgpaData_eq
        instituteNameData_eq semesterValue_eq emptyCell_def b2 k2)
  have row1: \<open>csvRow [''rollNo'', ''toString''] ?r1 = ''"1",,"","","","","","","","",""''\<close>
    by (simp add: csvRow_def rowCells_def rowData_def Array_join_def sgpaData_eq
        instituteNameData_eq semesterValue_eq emptyCell_def b1 k1)
  have "rollNoOf ?r2 = Some ''2''" "rollNoOf ?r1 = Some ''1''"
    by (simp_all add: rollNoOf_def)
  then have "compareFn codeUnitCompare ?r2 ?r1 = Inr (codeUnitCompare ''1'' ''2'')"
    by (rule compareFn_text)
  then have "Array_sort (compareFn codeUnitCompare) [?r2, ?r1] = Inr [?r2, ?r1]"
    by simp
  then have "jsonToCsv codeUnitCompare [?r2, ?r1] = render [?r2, ?r1]"
    by (simp add: jsonToCsv_def)
  also have \<open>\<dots> = Inr ''rollNo,toString,SGPA_sem1,SGPA_sem2,SGPA_sem3,SGPA_sem4,SGPA_sem5,SGPA_sem6,SGPA_sem7,SGPA_sem8,instituteName\<newline>"2","","","","","","","","","",""\<newline>"1",,"","","","","","","","",""''\<close>
    by (simp add: render_def baseHeadersOf_def Object_keys_def headersOf_def sgpaHeaders_eq
        row2 row1)
  finally show ?thesis using b2 b1 by simp
qed

end
